theory Spec2Isabelle
  imports Main "HOL-Library.Sublist"
begin

text \<open>
  The Hyperliquid MCP server (\<open>server/src/index.ts\<close>): a protocol adapter that lists
  resources and tools, matches resource URIs, and turns a tool call into the argument
  list of a Python bridge subprocess. The definitions follow the source function by
  function: \<open>runBridgeScript\<close>, the read-resource handler, the tool catalog and the
  call-tool handler. The subprocess and \<open>JSON.parse\<close> are parameters of the model.
\<close>

section \<open>JavaScript values\<close>

text \<open>
  The values that reach the adapter are decoded JSON, plus \<open>undefined\<close> (what reading a
  missing property gives). Strings are lists of characters; the field names, flag names
  and URIs of the source are ASCII. An integral number is \<open>JInt\<close> (in the range where
  JavaScript prints it in plain decimal, below \<open>10^21\<close> in magnitude); a finite number with
  a fractional part is \<open>JDec\<close>, carried by the decimal text that \<open>String\<close> prints for it
  (\<open>0.1\<close> is \<open>JDec ''0.1''\<close>). An object is the list of its own properties in
  property order, with distinct keys.
\<close>

datatype jsval =
    JUndefined
  | JNull
  | JBool bool
  | JInt int
  | JDec string
  | JStr string
  | JArr "jsval list"
  | JObj "(string \<times> jsval) list"

type_synonym fields = "(string \<times> jsval) list"

text \<open>Property read \<open>obj.key\<close> on an object: \<open>undefined\<close> when the key is missing.\<close>

definition get_prop :: "fields \<Rightarrow> string \<Rightarrow> jsval" where
  "get_prop obj key = (case map_of obj key of None \<Rightarrow> JUndefined | Some v \<Rightarrow> v)"

text \<open>Truthiness, as tested by \<open>if (v)\<close>, \<open>!v\<close> and \<open>v ? a : b\<close>.\<close>

fun truthy :: "jsval \<Rightarrow> bool" where
  "truthy JUndefined = False"
| "truthy JNull = False"
| "truthy (JBool b) = b"
| "truthy (JInt n) = (n \<noteq> 0)"
| "truthy (JDec s) = True"
| "truthy (JStr s) = (s \<noteq> [])"
| "truthy (JArr xs) = True"
| "truthy (JObj kvs) = True"

subsection \<open>Decimal text of an integer\<close>

definition digit_char :: "nat \<Rightarrow> char" where
  "digit_char d = char_of (48 + d)"

fun nat_digits :: "nat \<Rightarrow> string" where
  "nat_digits n = (if n < 10 then [digit_char n] else nat_digits (n div 10) @ [digit_char (n mod 10)])"

declare nat_digits.simps [simp del]

definition int_text :: "int \<Rightarrow> string" where
  "int_text i = (if i < 0 then CHR ''-'' # nat_digits (nat (- i)) else nat_digits (nat i))"

fun join :: "string \<Rightarrow> string list \<Rightarrow> string" where
  "join sep [] = []"
| "join sep [x] = x"
| "join sep (x # y # ys) = x @ sep @ join sep (y # ys)"

subsection \<open>What is thrown\<close>

datatype error_code = InvalidRequest | MethodNotFound

text \<open>
  What a \<open>throw\<close> carries: an \<open>Error\<close> object (class name and message), the protocol
  error \<open>McpError\<close> with its code, or a value that is not an \<open>Error\<close>.
\<close>

datatype thrown =
    ErrorObj string string
  | McpError error_code string
  | NonError jsval

text \<open>
  The results of a run of steps of which any may throw: the first error, or all the
  values.
\<close>

fun collect :: "('e + 'a) list \<Rightarrow> 'e + 'a list" where
  "collect [] = Inr []"
| "collect (Inl e # rs) = Inl e"
| "collect (Inr a # rs) = (case collect rs of Inl e \<Rightarrow> Inl e | Inr as \<Rightarrow> Inr (a # as))"

subsection \<open>\<open>String(value)\<close>\<close>

text \<open>
  \<open>String\<close> of an array joins the elements' strings with a comma, \<open>null\<close> and
  \<open>undefined\<close> elements giving the empty string. Of an object it is the text
  \<open>[object Object]\<close> that the inherited \<open>toString\<close> gives, unless the object has a
  property \<open>toString\<close> of its own: decoded JSON holds no function, so that property
  cannot be called, the inherited \<open>valueOf\<close> gives back the object, and the conversion
  throws \<open>TypeError\<close>. The same error comes out of an array that holds such an object.
\<close>

definition cannot_convert :: thrown where
  "cannot_convert = ErrorObj ''TypeError'' ''Cannot convert object to primitive value''"

fun js_String :: "jsval \<Rightarrow> thrown + string"
  and element_String :: "jsval \<Rightarrow> thrown + string" where
  "js_String JUndefined = Inr ''undefined''"
| "js_String JNull = Inr ''null''"
| "js_String (JBool b) = Inr (if b then ''true'' else ''false'')"
| "js_String (JInt n) = Inr (int_text n)"
| "js_String (JDec s) = Inr s"
| "js_String (JStr s) = Inr s"
| "js_String (JArr xs) =
     (case collect (map element_String xs) of Inl e \<Rightarrow> Inl e | Inr ss \<Rightarrow> Inr (join '','' ss))"
| "js_String (JObj kvs) =
     (if ''toString'' \<in> fst ` set kvs then Inl cannot_convert else Inr ''[object Object]'')"
| "element_String v = (if v = JUndefined \<or> v = JNull then Inr [] else js_String v)"

section \<open>The argument marshaller of \<open>runBridgeScript\<close>\<close>

text \<open>
  \<open>key.replace(/([A-Z])/g, '-$1').toLowerCase()\<close>: a hyphen is put before every capital
  letter \<open>A\<close>..\<open>Z\<close>, then the letters are lowered.
\<close>

definition is_upper :: "char \<Rightarrow> bool" where
  "is_upper c = (65 \<le> (of_char c :: nat) \<and> (of_char c :: nat) \<le> 90)"

definition lower_char :: "char \<Rightarrow> char" where
  "lower_char c = (if is_upper c then char_of ((of_char c :: nat) + 32) else c)"

definition toLowerCase :: "string \<Rightarrow> string" where
  "toLowerCase s = map lower_char s"

fun hyphenate :: "string \<Rightarrow> string" where
  "hyphenate [] = []"
| "hyphenate (c # cs) = (if is_upper c then CHR ''-'' # c # hyphenate cs else c # hyphenate cs)"

definition flag_name :: "string \<Rightarrow> string" where
  "flag_name key = toLowerCase (hyphenate key)"

text \<open>
  The body of the \<open>flatMap\<close>: nothing for an \<open>undefined\<close> or \<open>null\<close> value, otherwise the
  flag and the value's string, or the error that \<open>String(value)\<close> throws.
\<close>

definition entry_flags :: "string \<times> jsval \<Rightarrow> thrown + string list" where
  "entry_flags e = (case e of (key, v) \<Rightarrow>
     if v = JUndefined \<or> v = JNull then Inr []
     else (case js_String v of Inl err \<Rightarrow> Inl err | Inr s \<Rightarrow> Inr [''--'' @ flag_name key, s]))"

text \<open>The \<open>flatMap\<close> over the entries, in order: the first error, or all the flags.\<close>

definition call_flags :: "fields \<Rightarrow> thrown + string list" where
  "call_flags args =
     (case collect (map entry_flags args) of Inl err \<Rightarrow> Inl err | Inr fls \<Rightarrow> Inr (concat fls))"

text \<open>
  The entries that the \<open>flatMap\<close> does not drop, each as its flag with the string of its
  value or the error of the conversion.
\<close>

definition flag_pairs :: "fields \<Rightarrow> (string \<times> (thrown + string)) list" where
  "flag_pairs args =
     map (\<lambda>(key, v). (''--'' @ flag_name key, js_String v))
       (filter (\<lambda>(key, v). v \<noteq> JUndefined \<and> v \<noteq> JNull) args)"

section \<open>Configuration\<close>

text \<open>
  The three environment variables, read once. \<open>accountAddress\<close> is \<open>None\<close> when the
  variable is unset; \<open>network\<close> has its default already applied.
\<close>

record config =
  secretKey :: string
  accountAddress :: "string option"
  network :: string

definition load_config :: "(string \<rightharpoonup> string) \<Rightarrow> thrown + config" where
  "load_config env =
     (case env ''HYPERLIQUID_SECRET_KEY'' of
        None \<Rightarrow> Inl (ErrorObj ''Error'' ''HYPERLIQUID_SECRET_KEY environment variable is required'')
      | Some k \<Rightarrow>
          if k = [] then Inl (ErrorObj ''Error'' ''HYPERLIQUID_SECRET_KEY environment variable is required'')
          else Inr \<lparr> secretKey = k,
                     accountAddress = env ''HYPERLIQUID_ACCOUNT_ADDRESS'',
                     network = (case env ''HYPERLIQUID_NETWORK'' of
                                  None \<Rightarrow> ''mainnet''
                                | Some n \<Rightarrow> if n = [] then ''mainnet'' else n) \<rparr>)"

text \<open>\<open>ACCOUNT_ADDRESS ? [...] : []\<close>: an unset or empty variable is falsy.\<close>

definition account_flags :: "string option \<Rightarrow> string list" where
  "account_flags a = (case a of None \<Rightarrow> [] | Some addr \<Rightarrow>
     if addr = [] then [] else [''--account-address'', addr])"

text \<open>The array \<open>options.args\<close>, or the error thrown while it is built.\<close>

definition bridge_args :: "config \<Rightarrow> string \<Rightarrow> fields \<Rightarrow> thrown + string list" where
  "bridge_args cfg command args =
     (case call_flags args of
        Inl err \<Rightarrow> Inl err
      | Inr fl \<Rightarrow>
          Inr ([command, ''--secret-key'', secretKey cfg, ''--network'', network cfg]
               @ account_flags (accountAddress cfg)
               @ fl))"

section \<open>\<open>JSON.stringify\<close>\<close>

definition hex_char :: "nat \<Rightarrow> char" where
  "hex_char d = (if d < 10 then char_of (48 + d) else char_of (87 + d))"

text \<open>
  Quoting of a string: the double quote and the backslash are escaped, the control
  characters have their short escapes or \<open>\u00XX\<close>.
\<close>

definition json_escape :: "char \<Rightarrow> string" where
  "json_escape c =
     (let n = (of_char c :: nat) in
      if n = 34 then [CHR 0x5C, CHR 0x22]
      else if n = 92 then [CHR 0x5C, CHR 0x5C]
      else if n = 8 then [CHR 0x5C, CHR ''b'']
      else if n = 12 then [CHR 0x5C, CHR ''f'']
      else if n = 10 then [CHR 0x5C, CHR ''n'']
      else if n = 13 then [CHR 0x5C, CHR ''r'']
      else if n = 9 then [CHR 0x5C, CHR ''t'']
      else if n < 32 then [CHR 0x5C, CHR ''u'', CHR ''0'', CHR ''0'', hex_char (n div 16), hex_char (n mod 16)]
      else [c])"

definition json_quote :: "string \<Rightarrow> string" where
  "json_quote s = CHR 0x22 # concat (map json_escape s) @ [CHR 0x22]"

text \<open>
  An array or object with its parts: empty brackets when there are none, the parts
  separated by commas when there is no gap, otherwise one part a line, indented.
\<close>

definition wrap :: "string \<Rightarrow> string \<Rightarrow> string \<Rightarrow> string \<Rightarrow> string list \<Rightarrow> string" where
  "wrap gap ind lb rb parts =
     (if parts = [] then lb @ rb
      else if gap = [] then lb @ join '','' parts @ rb
      else lb @ [CHR 0x0A] @ ind @ gap
             @ join ('','' @ [CHR 0x0A] @ ind @ gap) parts
             @ [CHR 0x0A] @ ind @ rb)"

text \<open>
  \<open>JSON_stringify gap ind v\<close> is \<open>JSON.stringify(v, null, gap)\<close> at the current
  indentation \<open>ind\<close>; \<open>None\<close> is the result \<open>undefined\<close>. An \<open>undefined\<close> array element
  prints as \<open>null\<close>, a property whose value is \<open>undefined\<close> is left out.
\<close>

fun JSON_stringify :: "string \<Rightarrow> string \<Rightarrow> jsval \<Rightarrow> string option" where
  "JSON_stringify gap ind JUndefined = None"
| "JSON_stringify gap ind JNull = Some ''null''"
| "JSON_stringify gap ind (JBool b) = Some (if b then ''true'' else ''false'')"
| "JSON_stringify gap ind (JInt n) = Some (int_text n)"
| "JSON_stringify gap ind (JDec s) = Some s"
| "JSON_stringify gap ind (JStr s) = Some (json_quote s)"
| "JSON_stringify gap ind (JArr xs) =
     Some (wrap gap ind ''['' '']''
       (map (\<lambda>x. case JSON_stringify gap (ind @ gap) x of None \<Rightarrow> ''null'' | Some s \<Rightarrow> s) xs))"
| "JSON_stringify gap ind (JObj kvs) =
     Some (wrap gap ind ''{'' ''}''
       (concat (map (\<lambda>(k, v). case JSON_stringify gap (ind @ gap) v of
                        None \<Rightarrow> []
                      | Some s \<Rightarrow> [json_quote k @ (if gap = [] then '':'' else '': '') @ s]) kvs)))"

section \<open>\<open>decodeURIComponent\<close>\<close>

text \<open>
  A string is read as its UTF-8 bytes. An escape \<open>%XY\<close> stands for one byte; a byte
  below 128 is a character of its own, a leading byte of a multi-byte character must be
  followed by its continuation bytes, each escaped too, and together they must be valid
  UTF-8. Anything else raises \<open>URIError\<close>.
\<close>

definition hex_val :: "char \<Rightarrow> nat option" where
  "hex_val c =
     (let n = (of_char c :: nat) in
      if 48 \<le> n \<and> n \<le> 57 then Some (n - 48)
      else if 65 \<le> n \<and> n \<le> 70 then Some (n - 55)
      else if 97 \<le> n \<and> n \<le> 102 then Some (n - 87)
      else None)"

datatype uri_token = Lit char | Octet nat

fun uri_tokens :: "string \<Rightarrow> uri_token list option" where
  "uri_tokens [] = Some []"
| "uri_tokens (c # cs) =
     (if c \<noteq> CHR ''%'' then map_option (\<lambda>ts. Lit c # ts) (uri_tokens cs)
      else (case cs of
              h # l # rest \<Rightarrow>
                (case (hex_val h, hex_val l) of
                   (Some a, Some b) \<Rightarrow> map_option (\<lambda>ts. Octet (16 * a + b) # ts) (uri_tokens rest)
                 | _ \<Rightarrow> None)
            | _ \<Rightarrow> None))"

text \<open>The number of bytes of the character that a leading byte announces (0: not a leading byte).\<close>

definition utf8_length :: "nat \<Rightarrow> nat" where
  "utf8_length b =
     (if b < 128 then 1
      else if 194 \<le> b \<and> b < 224 then 2
      else if 224 \<le> b \<and> b < 240 then 3
      else if 240 \<le> b \<and> b < 245 then 4
      else 0)"

definition is_cont :: "nat \<Rightarrow> bool" where
  "is_cont b = (128 \<le> b \<and> b < 192)"

definition valid_utf8 :: "nat list \<Rightarrow> bool" where
  "valid_utf8 bs =
     (case bs of
        [a] \<Rightarrow> a < 128
      | [a, b] \<Rightarrow> 194 \<le> a \<and> a < 224 \<and> is_cont b
      | [a, b, c] \<Rightarrow> 224 \<le> a \<and> a < 240 \<and> is_cont b \<and> is_cont c
                     \<and> (a = 224 \<longrightarrow> 160 \<le> b) \<and> (a = 237 \<longrightarrow> b < 160)
      | [a, b, c, d] \<Rightarrow> 240 \<le> a \<and> a < 245 \<and> is_cont b \<and> is_cont c \<and> is_cont d
                     \<and> (a = 240 \<longrightarrow> 144 \<le> b) \<and> (a = 244 \<longrightarrow> b < 144)
      | _ \<Rightarrow> False)"

fun octets_of :: "uri_token list \<Rightarrow> nat list option" where
  "octets_of [] = Some []"
| "octets_of (Octet b # ts) = map_option (\<lambda>bs. b # bs) (octets_of ts)"
| "octets_of (Lit c # ts) = None"

fun decode_tokens :: "uri_token list \<Rightarrow> string option" where
  "decode_tokens [] = Some []"
| "decode_tokens (Lit c # ts) = map_option (\<lambda>s. c # s) (decode_tokens ts)"
| "decode_tokens (Octet b # ts) =
     (let n = utf8_length b in
      if n = 0 \<or> length ts < n - 1 then None
      else (case octets_of (take (n - 1) ts) of
              None \<Rightarrow> None
            | Some bs \<Rightarrow>
                if valid_utf8 (b # bs)
                then map_option (\<lambda>s. map char_of (b # bs) @ s) (decode_tokens (drop (n - 1) ts))
                else None))"

definition decodeURIComponent :: "string \<Rightarrow> thrown + string" where
  "decodeURIComponent s =
     (case uri_tokens s of
        None \<Rightarrow> Inl (ErrorObj ''URIError'' ''URI malformed'')
      | Some ts \<Rightarrow>
          (case decode_tokens ts of
             None \<Rightarrow> Inl (ErrorObj ''URIError'' ''URI malformed'')
           | Some r \<Rightarrow> Inr r))"

section \<open>The bridge subprocess\<close>

text \<open>
  The outside world of one request, for the runs in which the promise of
  \<open>PythonShell.run\<close> settles: \<open>PythonShell_run\<close> is that call, from the argument list to
  the lines of the output it resolves with or the error it rejects with (a non-zero
  exit of the script); \<open>JSON_parse\<close> is \<open>JSON.parse\<close>, from a text to the decoded value
  or the \<open>SyntaxError\<close>. What the library does when the promise never settles is not
  part of the model.
\<close>

record bridge_env =
  PythonShell_run :: "string list \<Rightarrow> thrown + string list"
  JSON_parse :: "string \<Rightarrow> thrown + jsval"

text \<open>
  A handler's effect: what it returns or throws, and the argument lists of the
  subprocesses it spawned, in order.
\<close>

type_synonym 'a effect = "(thrown + 'a) \<times> string list list"

text \<open>
  \<open>runBridgeScript\<close>: the argument array is built first, outside the \<open>try\<close>, so an error
  of \<open>String(value)\<close> leaves the function before anything is spawned. Then the script
  is run and the first output line is parsed (\<open>result[0]\<close> of no output is \<open>undefined\<close>,
  which \<open>JSON.parse\<close> reads as the text \<open>undefined\<close>); the \<open>catch\<close> logs and rethrows.
\<close>

definition runBridgeScript :: "bridge_env \<Rightarrow> config \<Rightarrow> string \<Rightarrow> fields \<Rightarrow> jsval effect" where
  "runBridgeScript env cfg command args =
     (case bridge_args cfg command args of
        Inl err \<Rightarrow> (Inl err, [])
      | Inr argv \<Rightarrow>
          ((case PythonShell_run env argv of
              Inl e \<Rightarrow> Inl e
            | Inr lines \<Rightarrow> JSON_parse env (case lines of [] \<Rightarrow> ''undefined'' | l # _ \<Rightarrow> l)),
           [argv]))"

section \<open>Resources\<close>

record descriptor =
  name :: string
  description :: string

record media_descriptor = descriptor +
  mimeType :: string

record resource = media_descriptor +
  uri :: string

record resource_template = media_descriptor +
  uriTemplate :: string

definition listResources :: "resource list" where
  "listResources =
     [\<lparr> name = ''Current mid prices for all coins'',
        description = ''Real-time mid prices for all actively traded coins on Hyperliquid'',
        mimeType = ''application/json'',
        uri = ''hyperliquid://market/all-mids'' \<rparr>]"

definition listResourceTemplates :: "resource_template list" where
  "listResourceTemplates =
     [\<lparr> name = ''L2 order book for a specific coin'',
        description = ''Order book data for a specific coin on Hyperliquid'',
        mimeType = ''application/json'',
        uriTemplate = ''hyperliquid://market/l2-book/{coin}'' \<rparr>,
      \<lparr> name = ''User state for a specific address'',
        description = ''Trading details about a user including positions, margin, and account value'',
        mimeType = ''application/json'',
        uriTemplate = ''hyperliquid://user/{address}/state'' \<rparr>,
      \<lparr> name = ''Open orders for a specific address'',
        description = ''List of open orders for a specific user'',
        mimeType = ''application/json'',
        uriTemplate = ''hyperliquid://user/{address}/open-orders'' \<rparr>]"

text \<open>
  \<open>uri.match(/^pre([^/]+)suf$/)\<close>: the captured group when the URI is \<open>pre\<close>, then one or
  more characters other than \<open>/\<close>, then \<open>suf\<close>; \<open>None\<close> when there is no match.
\<close>

definition capture :: "string \<Rightarrow> string \<Rightarrow> string \<Rightarrow> string option" where
  "capture pre suf u =
     (if prefix pre u \<and> suffix suf (drop (length pre) u)
      then (let seg = take (length u - length pre - length suf) (drop (length pre) u)
            in if seg \<noteq> [] \<and> CHR ''/'' \<notin> set seg then Some seg else None)
      else None)"

definition l2BookMatch :: "string \<Rightarrow> string option" where
  "l2BookMatch u = capture ''hyperliquid://market/l2-book/'' [] u"

definition userStateMatch :: "string \<Rightarrow> string option" where
  "userStateMatch u = capture ''hyperliquid://user/'' ''/state'' u"

definition openOrdersMatch :: "string \<Rightarrow> string option" where
  "openOrdersMatch u = capture ''hyperliquid://user/'' ''/open-orders'' u"

text \<open>One entry of \<open>contents\<close>: the URI, the MIME type and the text.\<close>

datatype content_entry = Content string string "string option"

text \<open>The bridge call of a matched resource and the wrapping of its result.\<close>

definition resource_reply :: "bridge_env \<Rightarrow> config \<Rightarrow> string \<Rightarrow> string \<Rightarrow> fields \<Rightarrow> content_entry list effect" where
  "resource_reply env cfg u command args =
     (case runBridgeScript env cfg command args of
        (Inl e, spawned) \<Rightarrow> (Inl e, spawned)
      | (Inr data, spawned) \<Rightarrow>
          (Inr [Content u ''application/json'' (JSON_stringify ''  '' [] data)], spawned))"

definition readResource :: "bridge_env \<Rightarrow> config \<Rightarrow> string \<Rightarrow> content_entry list effect" where
  "readResource env cfg u =
     (if u = ''hyperliquid://market/all-mids''
      then resource_reply env cfg u ''market-data'' [(''dataType'', JStr ''all_mids'')]
      else (case l2BookMatch u of
        Some seg \<Rightarrow>
          (case decodeURIComponent seg of
             Inl e \<Rightarrow> (Inl e, [])
           | Inr coin \<Rightarrow>
               resource_reply env cfg u ''market-data''
                 [(''dataType'', JStr ''l2_snapshot''), (''coin'', JStr coin)])
      | None \<Rightarrow>
      (case userStateMatch u of
        Some seg \<Rightarrow>
          (case decodeURIComponent seg of
             Inl e \<Rightarrow> (Inl e, [])
           | Inr address \<Rightarrow>
               resource_reply env cfg u ''user-data'' [(''dataType'', JStr ''user_state'')])
      | None \<Rightarrow>
      (case openOrdersMatch u of
        Some seg \<Rightarrow>
          (case decodeURIComponent seg of
             Inl e \<Rightarrow> (Inl e, [])
           | Inr address \<Rightarrow>
               resource_reply env cfg u ''user-data'' [(''dataType'', JStr ''open_orders'')])
      | None \<Rightarrow> (Inl (McpError InvalidRequest (''Invalid URI format: '' @ u)), [])))))"

section \<open>Tools\<close>

subsection \<open>The catalog\<close>

datatype json_type = TString | TInteger | TNumber | TBoolean

text \<open>A property of an input schema: its type, its description and its \<open>enum\<close>, if any.\<close>

datatype property = Property json_type string "string list option"

text \<open>
  An input schema (always of type \<open>object\<close>): the properties, the \<open>required\<close> list and
  the \<open>required\<close> lists of the alternatives of \<open>oneOf\<close>, if any.
\<close>

record input_schema =
  properties :: "(string \<times> property) list"
  required :: "string list"
  oneOf :: "string list list option"

record tool = descriptor +
  inputSchema :: input_schema

definition listTools :: "tool list" where
  "listTools =
     [\<lparr> name = ''get_market_data'',
        description = ''Get market data from Hyperliquid'',
        inputSchema = \<lparr>
          properties =
            [(''dataType'', Property TString ''Type of market data to retrieve''
                (Some [''all_mids'', ''l2_snapshot'', ''meta'', ''meta_and_asset_ctxs'', ''spot_meta'',
                       ''spot_meta_and_asset_ctxs'', ''candles'', ''funding_history''])),
             (''coin'', Property TString
                ''Coin symbol (required for l2_snapshot, candles, funding_history)'' None),
             (''interval'', Property TString ''Candle interval (required for candles)'' None),
             (''startTime'', Property TInteger
                ''Start time in milliseconds (required for candles, funding_history)'' None),
             (''endTime'', Property TInteger
                ''End time in milliseconds (optional for candles, funding_history)'' None)],
          required = [''dataType''],
          oneOf = None \<rparr> \<rparr>,
      \<lparr> name = ''get_user_data'',
        description = ''Get user-specific data from Hyperliquid'',
        inputSchema = \<lparr>
          properties =
            [(''dataType'', Property TString ''Type of user data to retrieve''
                (Some [''user_state'', ''spot_user_state'', ''open_orders'', ''frontend_open_orders'',
                       ''user_fills'', ''user_fills_by_time'', ''user_funding_history'', ''user_fees'',
                       ''user_staking_summary'', ''user_staking_delegations'',
                       ''user_staking_rewards'', ''query_sub_accounts''])),
             (''startTime'', Property TInteger
                ''Start time in milliseconds (required for user_fills_by_time, user_funding_history)'' None),
             (''endTime'', Property TInteger
                ''End time in milliseconds (optional for user_fills_by_time, user_funding_history)'' None)],
          required = [''dataType''],
          oneOf = None \<rparr> \<rparr>,
      \<lparr> name = ''place_limit_order'',
        description = ''Place a limit order on Hyperliquid'',
        inputSchema = \<lparr>
          properties =
            [(''coin'', Property TString ''Coin symbol'' None),
             (''isBuy'', Property TBoolean ''Whether the order is a buy'' None),
             (''size'', Property TNumber ''Order size'' None),
             (''price'', Property TNumber ''Order price'' None),
             (''timeInForce'', Property TString ''Time in force'' (Some [''Gtc'', ''Ioc'', ''Alo''])),
             (''reduceOnly'', Property TBoolean ''Whether the order is reduce-only'' None),
             (''clientOrderId'', Property TString ''Client order ID'' None)],
          required = [''coin'', ''isBuy'', ''size'', ''price'', ''timeInForce''],
          oneOf = None \<rparr> \<rparr>,
      \<lparr> name = ''place_market_order'',
        description = ''Place a market order on Hyperliquid'',
        inputSchema = \<lparr>
          properties =
            [(''coin'', Property TString ''Coin symbol'' None),
             (''isBuy'', Property TBoolean ''Whether the order is a buy'' None),
             (''size'', Property TNumber ''Order size'' None),
             (''slippage'', Property TNumber ''Slippage tolerance (default: 0.05)'' None),
             (''clientOrderId'', Property TString ''Client order ID'' None)],
          required = [''coin'', ''isBuy'', ''size''],
          oneOf = None \<rparr> \<rparr>,
      \<lparr> name = ''cancel_order'',
        description = ''Cancel an order on Hyperliquid'',
        inputSchema = \<lparr>
          properties =
            [(''coin'', Property TString ''Coin symbol'' None),
             (''orderId'', Property TInteger ''Order ID'' None),
             (''clientOrderId'', Property TString ''Client order ID'' None)],
          required = [''coin''],
          oneOf = Some [[''orderId''], [''clientOrderId'']] \<rparr> \<rparr>,
      \<lparr> name = ''update_leverage'',
        description = ''Update leverage for a coin'',
        inputSchema = \<lparr>
          properties =
            [(''coin'', Property TString ''Coin symbol'' None),
             (''leverage'', Property TInteger ''Leverage value'' None),
             (''isCross'', Property TBoolean ''Whether to use cross margin (default: true)'' None)],
          required = [''coin'', ''leverage''],
          oneOf = None \<rparr> \<rparr>]"

subsection \<open>Dispatch\<close>

text \<open>\<open>v ? 'true' : 'false'\<close>.\<close>

definition true_false :: "jsval \<Rightarrow> jsval" where
  "true_false v = JStr (if truthy v then ''true'' else ''false'')"

text \<open>
  The \<open>switch (name)\<close> up to the call of \<open>runBridgeScript\<close>: the bridge command and the
  object handed to it, or what the case throws. \<open>args\<close> is \<open>None\<close> when the request has
  no \<open>arguments\<close>.
\<close>

definition args_required :: thrown where
  "args_required = ErrorObj ''Error'' ''Arguments are required''"

definition tool_request :: "string \<Rightarrow> fields option \<Rightarrow> thrown + (string \<times> fields)" where
  "tool_request nm args =
     (if nm = ''get_market_data'' then
        (case args of None \<Rightarrow> Inl args_required | Some a \<Rightarrow>
           Inr (''market-data'',
                [(''dataType'', get_prop a ''dataType''),
                 (''coin'', get_prop a ''coin''),
                 (''interval'', get_prop a ''interval''),
                 (''startTime'', get_prop a ''startTime''),
                 (''endTime'', get_prop a ''endTime'')]))
      else if nm = ''get_user_data'' then
        (case args of None \<Rightarrow> Inl args_required | Some a \<Rightarrow>
           Inr (''user-data'',
                [(''dataType'', get_prop a ''dataType''),
                 (''startTime'', get_prop a ''startTime''),
                 (''endTime'', get_prop a ''endTime'')]))
      else if nm = ''place_limit_order'' then
        (case args of None \<Rightarrow> Inl args_required | Some a \<Rightarrow>
           (let orderType = JSON_stringify [] []
                  (JObj [(''limit'', JObj [(''tif'', get_prop a ''timeInForce'')])])
            in Inr (''place-order'',
                [(''coin'', get_prop a ''coin''),
                 (''isBuy'', true_false (get_prop a ''isBuy'')),
                 (''size'', get_prop a ''size''),
                 (''price'', get_prop a ''price''),
                 (''orderType'', (case orderType of None \<Rightarrow> JUndefined | Some s \<Rightarrow> JStr s)),
                 (''reduceOnly'', true_false (get_prop a ''reduceOnly'')),
                 (''cloid'', get_prop a ''clientOrderId'')])))
      else if nm = ''place_market_order'' then
        (case args of None \<Rightarrow> Inl args_required | Some a \<Rightarrow>
           Inr (''market-order'',
                [(''coin'', get_prop a ''coin''),
                 (''isBuy'', true_false (get_prop a ''isBuy'')),
                 (''size'', get_prop a ''size''),
                 (''slippage'', get_prop a ''slippage''),
                 (''cloid'', get_prop a ''clientOrderId'')]))
      else if nm = ''cancel_order'' then
        (case args of None \<Rightarrow> Inl args_required | Some a \<Rightarrow>
           Inr (''cancel-order'',
                [(''coin'', get_prop a ''coin''),
                 (''oid'', get_prop a ''orderId''),
                 (''cloid'', get_prop a ''clientOrderId'')]))
      else if nm = ''update_leverage'' then
        (case args of None \<Rightarrow> Inl args_required | Some a \<Rightarrow>
           Inr (''update-leverage'',
                [(''coin'', get_prop a ''coin''),
                 (''leverage'', get_prop a ''leverage''),
                 (''isCross'', (if get_prop a ''isCross'' = JUndefined then JStr ''true''
                                else true_false (get_prop a ''isCross'')))]))
      else Inl (McpError MethodNotFound (''Unknown tool: '' @ nm)))"

subsection \<open>The response\<close>

text \<open>
  The single text entry of a tool result and its error flag (\<open>False\<close>: the result has no
  \<open>isError\<close>).
\<close>

record tool_result =
  content :: "string option"
  isError :: bool

definition code_number :: "error_code \<Rightarrow> int" where
  "code_number c = (case c of InvalidRequest \<Rightarrow> - 32600 | MethodNotFound \<Rightarrow> - 32601)"

text \<open>
  \<open>error instanceof Error ? error.message : String(error)\<close>. The message of an
  \<open>McpError\<close> is the one its constructor builds from the code and the text.
\<close>

definition error_message :: "thrown \<Rightarrow> thrown + string" where
  "error_message e =
     (case e of
        ErrorObj cls msg \<Rightarrow> Inr msg
      | McpError c msg \<Rightarrow> Inr (''MCP error '' @ int_text (code_number c) @ '': '' @ msg)
      | NonError v \<Rightarrow> js_String v)"

text \<open>
  The \<open>catch\<close> block of the call-tool handler: the error result, or what \<open>String(error)\<close>
  throws in its turn.
\<close>

definition caught :: "string \<Rightarrow> thrown \<Rightarrow> thrown + tool_result" where
  "caught nm e =
     (case error_message e of
        Inl err \<Rightarrow> Inl err
      | Inr msg \<Rightarrow>
          Inr \<lparr> content = Some (''Error executing tool '' @ nm @ '': '' @ msg), isError = True \<rparr>)"

text \<open>
  \<open>result.error\<close>: a \<open>TypeError\<close> on \<open>null\<close> and \<open>undefined\<close>, the property of an
  object, \<open>undefined\<close> on every other value.
\<close>

definition result_error :: "jsval \<Rightarrow> thrown + jsval" where
  "result_error r =
     (case r of
        JNull \<Rightarrow> Inl (ErrorObj ''TypeError'' ''Cannot read properties of null (reading 'error')'')
      | JUndefined \<Rightarrow> Inl (ErrorObj ''TypeError'' ''Cannot read properties of undefined (reading 'error')'')
      | JObj kvs \<Rightarrow> Inr (get_prop kvs ''error'')
      | _ \<Rightarrow> Inr JUndefined)"

text \<open>What the handler returns for a bridge result, inside the \<open>try\<close>.\<close>

definition result_reply :: "jsval \<Rightarrow> thrown + tool_result" where
  "result_reply r =
     (case result_error r of
        Inl e \<Rightarrow> Inl e
      | Inr err \<Rightarrow>
          if truthy err
          then (case js_String err of
                  Inl e \<Rightarrow> Inl e
                | Inr s \<Rightarrow> Inr \<lparr> content = Some (''Error: '' @ s), isError = True \<rparr>)
          else Inr \<lparr> content = JSON_stringify ''  '' [] r, isError = False \<rparr>)"

text \<open>
  The call-tool handler: everything thrown inside the \<open>try\<close> ends in the \<open>catch\<close>, and
  only what the \<open>catch\<close> itself throws leaves the handler.
\<close>

definition callTool :: "bridge_env \<Rightarrow> config \<Rightarrow> string \<Rightarrow> fields option \<Rightarrow> tool_result effect" where
  "callTool env cfg nm args =
     (case tool_request nm args of
        Inl e \<Rightarrow> (caught nm e, [])
      | Inr (command, fs) \<Rightarrow>
          (case runBridgeScript env cfg command fs of
             (Inl e, spawned) \<Rightarrow> (caught nm e, spawned)
           | (Inr r, spawned) \<Rightarrow>
               (case result_reply r of
                  Inl e \<Rightarrow> (caught nm e, spawned)
                | Inr reply \<Rightarrow> (Inr reply, spawned))))"

section \<open>The flag name in words\<close>

text \<open>
  The naming rule as the specification words it: the field name is cut into words, a new
  word starting at every capital letter; the words are lowered and joined by hyphens.
\<close>

fun split_words :: "string \<Rightarrow> string list" where
  "split_words [] = []"
| "split_words (c # cs) =
     (case split_words cs of
        [] \<Rightarrow> [[c]]
      | w # ws \<Rightarrow> if w \<noteq> [] \<and> is_upper (hd w) then [c] # w # ws else (c # w) # ws)"

definition spec_flag_name :: "string \<Rightarrow> string" where
  "spec_flag_name key = join ''-'' (map toLowerCase (split_words key))"

section \<open>A sample configuration and bridge\<close>

definition sample_config :: config where
  "sample_config = \<lparr> secretKey = ''0xkey'', accountAddress = Some ''0xA11CE'', network = ''mainnet'' \<rparr>"

text \<open>A bridge that prints \<open>{}\<close> for every invocation.\<close>

definition sample_env :: bridge_env where
  "sample_env = \<lparr> PythonShell_run = (\<lambda>argv. Inr [''{}'']), JSON_parse = (\<lambda>s. Inr (JObj [])) \<rparr>"

section \<open>The command vocabulary of the bridge\<close>

definition bridge_commands :: "string list" where
  "bridge_commands = [''market-data'', ''user-data'', ''place-order'', ''market-order'',
     ''cancel-order'', ''update-leverage'']"

section \<open>Optional fields and the flags they are passed under\<close>

text \<open>
  The key of the object handed to \<open>runBridgeScript\<close> that the cases of the switch fill
  from an argument field: \<open>clientOrderId\<close> goes to \<open>cloid\<close>, \<open>orderId\<close> to \<open>oid\<close>,
  \<open>timeInForce\<close> into \<open>orderType\<close>, every other field keeps its name.
\<close>

definition bridge_field :: "string \<Rightarrow> string" where
  "bridge_field field =
     (if field = ''clientOrderId'' then ''cloid''
      else if field = ''orderId'' then ''oid''
      else if field = ''timeInForce'' then ''orderType''
      else field)"

text \<open>The optional fields of a tool: the properties of its schema that are not required.\<close>

definition optional_fields :: "tool \<Rightarrow> string list" where
  "optional_fields t =
     filter (\<lambda>f. f \<notin> set (required (inputSchema t))) (map fst (properties (inputSchema t)))"

text \<open>Every tool with each of its optional fields.\<close>

definition optional_pairs :: "(string \<times> string) list" where
  "optional_pairs = [(''get_market_data'', ''coin''), (''get_market_data'', ''interval''),
       (''get_market_data'', ''startTime''), (''get_market_data'', ''endTime''),
       (''get_user_data'', ''startTime''), (''get_user_data'', ''endTime''),
       (''place_limit_order'', ''reduceOnly''), (''place_limit_order'', ''clientOrderId''),
       (''place_market_order'', ''slippage''), (''place_market_order'', ''clientOrderId''),
       (''cancel_order'', ''orderId''), (''cancel_order'', ''clientOrderId''),
       (''update_leverage'', ''isCross'')]"

section \<open>Further sample bridges\<close>






section \<open>The anchored match of a template\<close>

text \<open>
  The matching rule as the specification words it, for a template with one placeholder
  between the texts \<open>pre\<close> and \<open>suf\<close>: the URI is \<open>pre\<close>, then a segment of one or more
  characters other than \<open>/\<close>, then \<open>suf\<close>, and nothing else.
\<close>

definition anchored_match :: "string \<Rightarrow> string \<Rightarrow> string \<Rightarrow> string \<Rightarrow> bool" where
  "anchored_match pre suf u seg \<longleftrightarrow> u = pre @ seg @ suf \<and> seg \<noteq> [] \<and> CHR ''/'' \<notin> set seg"

section \<open>The body of a content entry\<close>

text \<open>What an entry of \<open>contents\<close> carries besides the echoed URI: the MIME type and the text.\<close>

definition entry_body :: "content_entry \<Rightarrow> string \<times> string option" where
  "entry_body c = (case c of Content u m t \<Rightarrow> (m, t))"

section \<open>A name that starts with a capital, a value without a string\<close>

text \<open>An object with a \<open>toString\<close> property of its own, as JSON can carry it.\<close>

definition unprintable :: jsval where
  "unprintable = JObj [(''toString'', JInt 1)]"

section \<open>The flags of the configuration\<close>

definition reserved_flags :: "string list" where
  "reserved_flags = [''--secret-key'', ''--network'', ''--account-address'']"

text \<open>A configuration without an account address.\<close>

definition bare_config :: config where
  "bare_config = \<lparr> secretKey = ''0xkey'', accountAddress = None, network = ''testnet'' \<rparr>"

section \<open>Percent-encoding\<close>

text \<open>
  The encoding that percent-decoding undoes: a character to be escaped is written as a
  percent sign and the two hexadecimal digits of its code, every other character as
  itself.
\<close>

definition hex_upper :: "nat \<Rightarrow> char" where
  "hex_upper d = (if d < 10 then char_of (48 + d) else char_of (55 + d))"

definition percent_encode :: "(char \<Rightarrow> bool) \<Rightarrow> string \<Rightarrow> string" where
  "percent_encode esc s =
     concat (map (\<lambda>c. if esc c
                       then [CHR ''%'', hex_upper ((of_char c :: nat) div 16), hex_upper ((of_char c :: nat) mod 16)]
                       else [c]) s)"

section \<open>The protocol front-end\<close>

text \<open>
  The five request handlers that the server registers, as one function of the request.
  The list handlers return their fixed arrays; the other two are the handlers above.
\<close>

datatype request =
    ListResourcesRequest
  | ListResourceTemplatesRequest
  | ReadResourceRequest string
  | ListToolsRequest
  | CallToolRequest string "fields option"

datatype response =
    Resources "resource list"
  | ResourceTemplates "resource_template list"
  | Contents "content_entry list"
  | Tools "tool list"
  | ToolResult tool_result

definition handle :: "bridge_env \<Rightarrow> config \<Rightarrow> request \<Rightarrow> response effect" where
  "handle env cfg req =
     (case req of
        ListResourcesRequest \<Rightarrow> (Inr (Resources listResources), [])
      | ListResourceTemplatesRequest \<Rightarrow> (Inr (ResourceTemplates listResourceTemplates), [])
      | ReadResourceRequest u \<Rightarrow>
          (case readResource env cfg u of
             (Inl e, spawned) \<Rightarrow> (Inl e, spawned)
           | (Inr cs, spawned) \<Rightarrow> (Inr (Contents cs), spawned))
      | ListToolsRequest \<Rightarrow> (Inr (Tools listTools), [])
      | CallToolRequest nm args \<Rightarrow>
          (case callTool env cfg nm args of
             (Inl e, spawned) \<Rightarrow> (Inl e, spawned)
           | (Inr res, spawned) \<Rightarrow> (Inr (ToolResult res), spawned)))"

section \<open>Properties of the marshaller\<close>

lemma split_words_head:
  "split_words (d # ds) \<noteq> [] \<and> hd (split_words (d # ds)) \<noteq> []
     \<and> hd (hd (split_words (d # ds))) = d"
  by (simp split: list.splits)

lemma join_Cons_head: "join sep ((c # w) # ws) = c # join sep (w # ws)"
  by (cases ws) simp_all

lemma join_words_hyphenate:
  "join ''-'' (split_words s) =
     (if s \<noteq> [] \<and> is_upper (hd s) then tl (hyphenate s) else hyphenate s)"
proof (induction s)
  case Nil
  show ?case by simp
next
  case (Cons c cs)
  show ?case
  proof (cases cs)
    case Nil
    then show ?thesis by simp
  next
    case (Cons d ds)
    obtain w ws where ws: "split_words cs = w # ws" "w \<noteq> []" "hd w = d"
      using split_words_head [of d ds] Cons by (cases "split_words cs") auto
    show ?thesis
    proof (cases "is_upper d")
      case True
      with Cons.IH Cons ws show ?thesis by simp
    next
      case False
      with Cons.IH Cons ws show ?thesis by (simp add: join_Cons_head)
    qed
  qed
qed

lemma lower_hyphen: "lower_char CHR ''-'' = CHR ''-''"
  by (simp add: lower_char_def is_upper_def)

lemma toLowerCase_join: "toLowerCase (join ''-'' ws) = join ''-'' (map toLowerCase ws)"
  by (induction "''-''" ws rule: join.induct) (simp_all add: toLowerCase_def lower_hyphen)

lemma is_upper_lower_char: "\<not> is_upper (lower_char c)"
  by (auto simp: lower_char_def is_upper_def)

lemma collect_Inl: "collect rs = Inl e \<Longrightarrow> Inl e \<in> set rs"
  by (induction rs rule: collect.induct) (auto split: sum.splits)

lemma collect_Inr: "collect rs = Inr as \<Longrightarrow> rs = map Inr as"
  by (induction rs arbitrary: as rule: collect.induct) (auto split: sum.splits)

lemma collect_map_Inr: "collect (map Inr as) = Inr as"
  by (induction as) simp_all

lemma js_String_error:
  "js_String v = Inl e \<Longrightarrow> e = cannot_convert"
  "element_String w = Inl e \<Longrightarrow> e = cannot_convert"
proof (induction v and w arbitrary: e and e rule: js_String_element_String.induct)
  case (7 xs)
  then obtain x where "x \<in> set xs" "element_String x = Inl e"
    by (auto split: sum.splits dest!: collect_Inl)
  with 7 show ?case by blast
qed (auto split: if_splits)

lemma entry_flags_error: "entry_flags kv = Inl e \<Longrightarrow> e = cannot_convert"
  by (cases kv) (auto simp: entry_flags_def split: if_splits sum.splits dest: js_String_error)

lemma call_flags_error: "call_flags fs = Inl e \<Longrightarrow> e = cannot_convert"
proof -
  assume "call_flags fs = Inl e"
  then have "collect (map entry_flags fs) = Inl e"
    by (simp add: call_flags_def split: sum.splits)
  then have "Inl e \<in> set (map entry_flags fs)" by (rule collect_Inl)
  then obtain kv where "entry_flags kv = Inl e" by auto
  then show ?thesis by (rule entry_flags_error)
qed

lemma call_flags_Nil: "call_flags [] = Inr []"
  by (simp add: call_flags_def)

lemma call_flags_Cons:
  "call_flags ((k, v) # fs) =
     (if v = JUndefined \<or> v = JNull then call_flags fs
      else (case js_String v of
              Inl e \<Rightarrow> Inl e
            | Inr s \<Rightarrow> (case call_flags fs of Inl e \<Rightarrow> Inl e
                        | Inr fl \<Rightarrow> Inr ((''--'' @ flag_name k) # s # fl))))"
  by (simp add: call_flags_def entry_flags_def split: sum.splits)

lemma call_flags_printable:
  "(\<forall>(k, v) \<in> set fs. v \<noteq> JUndefined \<and> v \<noteq> JNull \<longrightarrow> (\<exists>s. js_String v = Inr s)) \<Longrightarrow>
     call_flags fs = Inr (concat (map (\<lambda>(k, v). [''--'' @ flag_name k, projr (js_String v)])
       (filter (\<lambda>(k, v). v \<noteq> JUndefined \<and> v \<noteq> JNull) fs)))"
proof (induction fs)
  case Nil
  show ?case by (simp add: call_flags_Nil)
next
  case (Cons kv fs)
  obtain k v where kv: "kv = (k, v)" by (cases kv)
  from Cons.prems have "\<forall>(k, v) \<in> set fs. v \<noteq> JUndefined \<and> v \<noteq> JNull \<longrightarrow> (\<exists>s. js_String v = Inr s)"
    by simp
  from Cons.IH [OF this] Cons.prems kv show ?case
    by (auto simp: call_flags_Cons)
qed

lemma call_flags_unprintable:
  "(k, v) \<in> set fs \<Longrightarrow> v \<noteq> JUndefined \<Longrightarrow> v \<noteq> JNull \<Longrightarrow> js_String v = Inl e \<Longrightarrow>
     call_flags fs = Inl cannot_convert"
proof (induction fs)
  case Nil
  then show ?case by simp
next
  case (Cons kv fs)
  obtain k' v' where kv: "kv = (k', v')" by (cases kv)
  show ?case
  proof (cases "(k, v) = kv")
    case True
    with Cons.prems kv show ?thesis
      by (auto simp: call_flags_Cons dest: js_String_error)
  next
    case False
    with Cons have "call_flags fs = Inl cannot_convert" by simp
    with kv show ?thesis
      by (auto simp: call_flags_Cons split: sum.splits dest: js_String_error)
  qed
qed

lemma call_flags_pairs:
  "call_flags fs = Inr fl \<Longrightarrow>
     fl = concat (map (\<lambda>(f, r). [f, projr r]) (flag_pairs fs))
     \<and> (\<forall>(f, r) \<in> set (flag_pairs fs). \<exists>s. r = Inr s)"
proof (induction fs arbitrary: fl)
  case Nil
  then show ?case by (simp add: call_flags_Nil flag_pairs_def)
next
  case (Cons kv fs)
  obtain k v where kv: "kv = (k, v)" by (cases kv)
  show ?case
  proof (cases "v = JUndefined \<or> v = JNull")
    case True
    with Cons kv show ?thesis by (auto simp: call_flags_Cons flag_pairs_def)
  next
    case False
    with Cons.prems kv obtain s fl' where s: "js_String v = Inr s" "call_flags fs = Inr fl'"
      "fl = (''--'' @ flag_name k) # s # fl'"
      by (auto simp: call_flags_Cons split: sum.splits)
    from Cons.IH [OF s(2)] s False kv show ?thesis
      by (auto simp: flag_pairs_def)
  qed
qed

lemma declared_names_lower:
  "\<forall>t \<in> set listTools. \<forall>f \<in> fst ` set (properties (inputSchema t)). \<not> is_upper (hd f)"
proof -
  have "list_all (\<lambda>t. list_all (\<lambda>f. \<not> is_upper (hd f)) (map fst (properties (inputSchema t)))) listTools"
    by (simp add: listTools_def is_upper_def)
  then show ?thesis by (simp add: list_all_iff)
qed

lemma flag_name_words:
  "key = [] \<or> \<not> is_upper (hd key) \<Longrightarrow> flag_name key = spec_flag_name key"
  using join_words_hyphenate [of key]
  by (auto simp: flag_name_def spec_flag_name_def toLowerCase_join [symmetric])

text \<open>
  C8, as stated, fails twice. The field name \<open>DataType\<close> is in mixed-case word form, and
  its flag name comes out with a hyphen in front, which is not the name's words joined
  by hyphens. And a present value whose \<open>String\<close> throws (an object with a \<open>toString\<close>
  property of its own) is not emitted: the marshaller throws instead.
\<close>

theorem capital_start_and_unprintable_value:
  "flag_name ''DataType'' = ''-data-type''
   \<and> spec_flag_name ''DataType'' = ''data-type''
   \<and> unprintable \<noteq> JUndefined \<and> unprintable \<noteq> JNull
   \<and> call_flags [(''coin'', unprintable)]
       = Inl (ErrorObj ''TypeError'' ''Cannot convert object to primitive value'')"
proof -
  have a: "flag_name ''DataType'' = ''-data-type''" by code_simp
  have b: "spec_flag_name ''DataType'' = ''data-type''" by code_simp
  have c: "unprintable \<noteq> JUndefined \<and> unprintable \<noteq> JNull"
    by (simp add: unprintable_def)
  have d: "call_flags [(''coin'', unprintable)]
       = Inl (ErrorObj ''TypeError'' ''Cannot convert object to primitive value'')"
    by (simp add: call_flags_Cons unprintable_def cannot_convert_def)
  from a b c d show ?thesis by (simp only: simp_thms)
qed

text \<open>
  C8, amended. The conversion of a field name to a flag name is a function defined on
  every string: a hyphen before every capital letter, then the letters lowered. For a
  name in mixed-case word form that starts with a lower-case letter, as every field
  name declared in the tool schemas does, it is the name's words, lowered and joined
  by hyphens; in every case the flag name has no capital letter. When \<open>String\<close>
  succeeds on every present value (one that is neither \<open>undefined\<close> nor \<open>null\<close>), the
  call-specific arguments are, in order, the flag and the string of each present
  value; when it throws on one of them, the marshaller throws and emits nothing.
\<close>

theorem flag_name_kebab:
  "(key = [] \<or> \<not> is_upper (hd key) \<longrightarrow> flag_name key = spec_flag_name key)
   \<and> (\<forall>c \<in> set (flag_name key). \<not> is_upper c)
   \<and> (\<forall>t \<in> set listTools. \<forall>f \<in> fst ` set (properties (inputSchema t)).
         flag_name f = spec_flag_name f)
   \<and> ((\<forall>(k, v) \<in> set fs. v \<noteq> JUndefined \<and> v \<noteq> JNull \<longrightarrow> (\<exists>s. js_String v = Inr s)) \<longrightarrow>
         call_flags fs = Inr (concat (map (\<lambda>(k, v). [''--'' @ flag_name k, projr (js_String v)])
           (filter (\<lambda>(k, v). v \<noteq> JUndefined \<and> v \<noteq> JNull) fs))))
   \<and> ((\<exists>(k, v) \<in> set fs. v \<noteq> JUndefined \<and> v \<noteq> JNull \<and> (\<exists>e. js_String v = Inl e)) \<longrightarrow>
         call_flags fs = Inl (ErrorObj ''TypeError'' ''Cannot convert object to primitive value''))"
proof (intro conjI impI)
  assume "key = [] \<or> \<not> is_upper (hd key)"
  then show "flag_name key = spec_flag_name key" by (rule flag_name_words)
next
  show "\<forall>c \<in> set (flag_name key). \<not> is_upper c"
    by (simp add: flag_name_def toLowerCase_def is_upper_lower_char)
next
  show "\<forall>t \<in> set listTools. \<forall>f \<in> fst ` set (properties (inputSchema t)).
         flag_name f = spec_flag_name f"
    using declared_names_lower flag_name_words by blast
next
  assume "\<forall>(k, v) \<in> set fs. v \<noteq> JUndefined \<and> v \<noteq> JNull \<longrightarrow> (\<exists>s. js_String v = Inr s)"
  then show "call_flags fs = Inr (concat (map (\<lambda>(k, v). [''--'' @ flag_name k, projr (js_String v)])
           (filter (\<lambda>(k, v). v \<noteq> JUndefined \<and> v \<noteq> JNull) fs)))"
    by (rule call_flags_printable)
next
  assume "\<exists>(k, v) \<in> set fs. v \<noteq> JUndefined \<and> v \<noteq> JNull \<and> (\<exists>e. js_String v = Inl e)"
  then obtain k v e where "(k, v) \<in> set fs" "v \<noteq> JUndefined" "v \<noteq> JNull" "js_String v = Inl e"
    by blast
  then have "call_flags fs = Inl cannot_convert" by (rule call_flags_unprintable)
  then show "call_flags fs = Inl (ErrorObj ''TypeError'' ''Cannot convert object to primitive value'')"
    by (simp only: cannot_convert_def)
qed

text \<open>
  C8, amended, at the field names \<open>startTime\<close> and \<open>isBuy\<close>, at the declared field
  \<open>timeInForce\<close>, and at the values 100, absent, true and the object above.
\<close>

theorem flag_name_kebab_witness:
  "flag_name ''startTime'' = ''start-time'' \<and> flag_name ''isBuy'' = ''is-buy''
   \<and> flag_name ''timeInForce'' = ''time-in-force''
   \<and> call_flags [(''startTime'', JInt 100), (''coin'', JUndefined), (''isBuy'', JBool True)]
       = Inr [''--start-time'', ''100'', ''--is-buy'', ''true'']
   \<and> call_flags [(''startTime'', JInt 100), (''coin'', unprintable)]
       = Inl (ErrorObj ''TypeError'' ''Cannot convert object to primitive value'')"
proof -
  let ?fs = "[(''startTime'', JInt 100), (''coin'', JUndefined), (''isBuy'', JBool True)]"
  let ?gs = "[(''startTime'', JInt 100), (''coin'', unprintable)]"
  note k1 = flag_name_kebab [of "''startTime''" ?fs]
  note k2 = flag_name_kebab [of "''isBuy''" ?gs]
  have a: "spec_flag_name ''startTime'' = ''start-time''" by code_simp
  have b: "spec_flag_name ''isBuy'' = ''is-buy''" by code_simp
  have c: "spec_flag_name ''timeInForce'' = ''time-in-force''" by code_simp
  have c1: "''startTime'' = [] \<or> \<not> is_upper (hd ''startTime'')" by (simp add: is_upper_def)
  have c2: "''isBuy'' = [] \<or> \<not> is_upper (hd ''isBuy'')" by (simp add: is_upper_def)
  have d1: "int_text 100 = ''100''" by code_simp
  have f1: "flag_name ''startTime'' = ''start-time''"
    using k1 [THEN conjunct1, rule_format, OF c1] a by (simp only:)
  have f2: "flag_name ''isBuy'' = ''is-buy''"
    using k2 [THEN conjunct1, rule_format, OF c2] b by (simp only:)
  have t: "listTools ! 2 \<in> set listTools"
    by (rule nth_mem) (simp add: listTools_def)
  have t': "''timeInForce'' \<in> fst ` set (properties (inputSchema (listTools ! 2)))"
    by (simp add: listTools_def)
  have f3: "flag_name ''timeInForce'' = ''time-in-force''"
    using k1 [THEN conjunct2, THEN conjunct2, THEN conjunct1, rule_format, OF t t'] c
    by (simp only:)
  have p: "\<forall>(k, v) \<in> set ?fs. v \<noteq> JUndefined \<and> v \<noteq> JNull \<longrightarrow> (\<exists>s. js_String v = Inr s)"
    by simp
  have g: "call_flags ?fs = Inr [''--start-time'', ''100'', ''--is-buy'', ''true'']"
    using k1 [THEN conjunct2, THEN conjunct2, THEN conjunct2, THEN conjunct1, THEN mp, OF p]
    by (simp add: d1 f1 f2)
  have q: "\<exists>(k, v) \<in> set ?gs. v \<noteq> JUndefined \<and> v \<noteq> JNull \<and> (\<exists>e. js_String v = Inl e)"
    by (simp add: unprintable_def)
  have h: "call_flags ?gs = Inl (ErrorObj ''TypeError'' ''Cannot convert object to primitive value'')"
    using k2 [THEN conjunct2, THEN conjunct2, THEN conjunct2, THEN conjunct2, THEN mp, OF q] .
  from f1 f2 f3 g h show ?thesis by (simp only: simp_thms)
qed

section \<open>Evaluation lemmas\<close>

lemma flag_names:
  "flag_name ''dataType'' = ''data-type''"
  "flag_name ''coin'' = ''coin''"
  "flag_name ''interval'' = ''interval''"
  "flag_name ''startTime'' = ''start-time''"
  "flag_name ''endTime'' = ''end-time''"
  "flag_name ''isBuy'' = ''is-buy''"
  "flag_name ''size'' = ''size''"
  "flag_name ''price'' = ''price''"
  "flag_name ''orderType'' = ''order-type''"
  "flag_name ''reduceOnly'' = ''reduce-only''"
  "flag_name ''cloid'' = ''cloid''"
  "flag_name ''slippage'' = ''slippage''"
  "flag_name ''oid'' = ''oid''"
  "flag_name ''leverage'' = ''leverage''"
  "flag_name ''isCross'' = ''is-cross''"
  by code_simp+

lemma digit_chars:
  "digit_char 0 = CHR ''0''" "digit_char 1 = CHR ''1''" "digit_char 2 = CHR ''2''"
  "digit_char 3 = CHR ''3''" "digit_char 4 = CHR ''4''" "digit_char 5 = CHR ''5''"
  "digit_char 6 = CHR ''6''" "digit_char 7 = CHR ''7''" "digit_char 8 = CHR ''8''"
  "digit_char 9 = CHR ''9''" "digit_char (Suc 0) = CHR ''1''"
  by code_simp+

lemma McpError_message:
  "error_message (McpError MethodNotFound m) = Inr (''MCP error -32601: '' @ m)"
  "error_message (McpError InvalidRequest m) = Inr (''MCP error -32600: '' @ m)"
  by (simp_all add: error_message_def code_number_def int_text_def nat_digits.simps digit_chars)

lemma caught_Error:
  "caught nm (ErrorObj cls msg)
     = Inr \<lparr> content = Some (''Error executing tool '' @ nm @ '': '' @ msg), isError = True \<rparr>"
  by (simp add: caught_def error_message_def)

lemma cancel_coin_only:
  "callTool sample_env sample_config ''cancel_order'' (Some [(''coin'', JStr ''BTC'')]) =
     (Inr \<lparr> content = Some ''{}'', isError = False \<rparr>,
      [[''cancel-order'', ''--secret-key'', ''0xkey'', ''--network'', ''mainnet'',
        ''--account-address'', ''0xA11CE'', ''--coin'', ''BTC'']])"
  by code_simp

lemma tool_names: "map name listTools =
  [''get_market_data'', ''get_user_data'', ''place_limit_order'', ''place_market_order'', ''cancel_order'', ''update_leverage'']"
  by (simp add: listTools_def)

lemma account_flags_cases:
  "account_flags (accountAddress cfg) =
     (if accountAddress cfg = None \<or> accountAddress cfg = Some []
      then [] else [''--account-address'', the (accountAddress cfg)])"
  by (auto simp: account_flags_def split: option.splits)

lemma runBridgeScript_spawned:
  "snd (runBridgeScript env cfg c fs) =
     (case bridge_args cfg c fs of Inl e \<Rightarrow> [] | Inr argv \<Rightarrow> [argv])"
  by (simp add: runBridgeScript_def split: sum.splits)

lemma runBridgeScript_unbuilt:
  "bridge_args cfg c fs = Inl e \<Longrightarrow> runBridgeScript env cfg c fs = (Inl e, [])"
  by (simp add: runBridgeScript_def)

lemma callTool_spawned:
  "snd (callTool env cfg nm args) =
     (case tool_request nm args of
        Inl e \<Rightarrow> []
      | Inr (c, fs) \<Rightarrow> (case bridge_args cfg c fs of Inl e \<Rightarrow> [] | Inr argv \<Rightarrow> [argv]))"
  by (simp add: callTool_def runBridgeScript_def split: sum.splits prod.splits)

lemma tool_request_command:
  "tool_request nm args = Inr (c, fs) \<Longrightarrow> c \<in> set bridge_commands"
  by (auto simp: tool_request_def bridge_commands_def Let_def split: if_splits option.splits)

lemma tool_request_unknown:
  "nm \<notin> set (map name listTools) \<Longrightarrow>
     tool_request nm args = Inl (McpError MethodNotFound (''Unknown tool: '' @ nm))"
  by (simp add: tool_names tool_request_def)

lemma tool_request_no_args:
  "nm \<in> set (map name listTools) \<Longrightarrow> tool_request nm None = Inl args_required"
  by (auto simp: tool_names tool_request_def)

lemma tool_request_with_args:
  "nm \<in> set (map name listTools) \<Longrightarrow> \<exists>c fs. tool_request nm (Some a) = Inr (c, fs)"
  by (auto simp: tool_names tool_request_def Let_def)

lemma tool_request_known:
  "tool_request nm args = Inr (c, fs) \<Longrightarrow> nm \<in> set (map name listTools) \<and> (\<exists>a. args = Some a)"
  by (auto simp: tool_names tool_request_def Let_def split: if_splits option.splits)

lemma tool_request_fields:
  "tool_request ''get_market_data'' (Some a) = Inr (''market-data'',
      [(''dataType'', get_prop a ''dataType''), (''coin'', get_prop a ''coin''),
       (''interval'', get_prop a ''interval''), (''startTime'', get_prop a ''startTime''),
       (''endTime'', get_prop a ''endTime'')])"
  "tool_request ''get_user_data'' (Some a) = Inr (''user-data'',
      [(''dataType'', get_prop a ''dataType''), (''startTime'', get_prop a ''startTime''),
       (''endTime'', get_prop a ''endTime'')])"
  "tool_request ''place_limit_order'' (Some a) = Inr (''place-order'',
      [(''coin'', get_prop a ''coin''), (''isBuy'', true_false (get_prop a ''isBuy'')),
       (''size'', get_prop a ''size''), (''price'', get_prop a ''price''),
       (''orderType'',
          (case JSON_stringify [] [] (JObj [(''limit'', JObj [(''tif'', get_prop a ''timeInForce'')])])
           of None \<Rightarrow> JUndefined | Some s \<Rightarrow> JStr s)),
       (''reduceOnly'', true_false (get_prop a ''reduceOnly'')),
       (''cloid'', get_prop a ''clientOrderId'')])"
  "tool_request ''place_market_order'' (Some a) = Inr (''market-order'',
      [(''coin'', get_prop a ''coin''), (''isBuy'', true_false (get_prop a ''isBuy'')),
       (''size'', get_prop a ''size''), (''slippage'', get_prop a ''slippage''),
       (''cloid'', get_prop a ''clientOrderId'')])"
  "tool_request ''cancel_order'' (Some a) = Inr (''cancel-order'',
      [(''coin'', get_prop a ''coin''), (''oid'', get_prop a ''orderId''),
       (''cloid'', get_prop a ''clientOrderId'')])"
  "tool_request ''update_leverage'' (Some a) = Inr (''update-leverage'',
      [(''coin'', get_prop a ''coin''), (''leverage'', get_prop a ''leverage''),
       (''isCross'', (if get_prop a ''isCross'' = JUndefined then JStr ''true''
                      else true_false (get_prop a ''isCross'')))])"
  by (simp_all add: tool_request_def Let_def del: JSON_stringify.simps)

lemma flag_pairs_fst:
  "fl \<in> fst ` set (flag_pairs fs) \<longleftrightarrow>
     (\<exists>(k, v) \<in> set fs. v \<noteq> JUndefined \<and> v \<noteq> JNull \<and> fl = ''--'' @ flag_name k)"
  by (force simp: flag_pairs_def)

lemma flag_pairs_mem:
  "(k, v) \<in> set fs \<Longrightarrow> v \<noteq> JUndefined \<Longrightarrow> v \<noteq> JNull \<Longrightarrow>
     (''--'' @ flag_name k, js_String v) \<in> set (flag_pairs fs)"
  by (force simp: flag_pairs_def)

lemma tool_request_keys:
  assumes "tool_request nm args = Inr (c, fs)"
  shows "set (map fst fs) \<subseteq> set [''dataType'', ''coin'', ''interval'', ''startTime'', ''endTime'',
     ''isBuy'', ''size'', ''price'', ''orderType'', ''reduceOnly'', ''cloid'', ''slippage'', ''oid'',
     ''leverage'', ''isCross'']"
proof -
  from tool_request_known [OF assms] obtain a where nm: "nm \<in> set (map name listTools)"
    and a: "args = Some a" by blast
  from assms a have fs: "fs = snd (projr (tool_request nm (Some a)))" by simp
  from nm have "nm = ''get_market_data'' \<or> nm = ''get_user_data''
      \<or> nm = ''place_limit_order'' \<or> nm = ''place_market_order''
      \<or> nm = ''cancel_order'' \<or> nm = ''update_leverage''"
    by (simp add: tool_names)
  then consider "nm = ''get_market_data''" | "nm = ''get_user_data''"
    | "nm = ''place_limit_order''" | "nm = ''place_market_order''"
    | "nm = ''cancel_order''" | "nm = ''update_leverage''"
    by argo
  then show ?thesis
  proof cases
    case 1 with fs show ?thesis by (simp add: tool_request_fields)
  next
    case 2 with fs show ?thesis by (simp add: tool_request_fields)
  next
    case 3 with fs show ?thesis by (simp add: tool_request_fields del: JSON_stringify.simps)
  next
    case 4 with fs show ?thesis by (simp add: tool_request_fields)
  next
    case 5 with fs show ?thesis by (simp add: tool_request_fields)
  next
    case 6 with fs show ?thesis by (simp add: tool_request_fields)
  qed
qed

lemma keys_not_reserved:
  "list_all (\<lambda>k. ''--'' @ flag_name k \<notin> set reserved_flags)
     [''dataType'', ''coin'', ''interval'', ''startTime'', ''endTime'',
      ''isBuy'', ''size'', ''price'', ''orderType'', ''reduceOnly'', ''cloid'', ''slippage'', ''oid'',
      ''leverage'', ''isCross'']"
  by (simp add: flag_names reserved_flags_def)

lemma call_flags_not_reserved:
  assumes "tool_request nm args = Inr (c, fs)" and "f \<in> fst ` set (flag_pairs fs)"
  shows "f \<notin> set reserved_flags"
proof -
  from assms(2) obtain k where k: "k \<in> set (map fst fs)" and f: "f = ''--'' @ flag_name k"
    by (force simp: flag_pairs_def)
  from k tool_request_keys [OF assms(1)] keys_not_reserved f show ?thesis
    unfolding list_all_iff by blast
qed

lemma resource_reply_spawned:
  "snd (resource_reply env cfg u c fs) =
     (case bridge_args cfg c fs of Inl e \<Rightarrow> [] | Inr argv \<Rightarrow> [argv])"
  by (simp add: resource_reply_def runBridgeScript_def split: sum.splits prod.splits)

lemma resource_args:
  "bridge_args cfg c [(''dataType'', JStr d)] =
     Inr ([c, ''--secret-key'', secretKey cfg, ''--network'', network cfg]
          @ account_flags (accountAddress cfg) @ [''--data-type'', d])"
  "bridge_args cfg c [(''dataType'', JStr d), (''coin'', JStr coin)] =
     Inr ([c, ''--secret-key'', secretKey cfg, ''--network'', network cfg]
          @ account_flags (accountAddress cfg) @ [''--data-type'', d, ''--coin'', coin])"
  by (simp_all add: bridge_args_def call_flags_Cons call_flags_Nil flag_names)

section \<open>Properties of the handlers\<close>

lemma readResource_spawned:
  assumes "argv \<in> set (snd (readResource env cfg u))"
  shows "\<exists>c fl. argv = [c, ''--secret-key'', secretKey cfg, ''--network'', network cfg]
                    @ account_flags (accountAddress cfg) @ fl
     \<and> (c = ''market-data'' \<and> fl = [''--data-type'', ''all_mids'']
        \<or> (\<exists>coin. c = ''market-data'' \<and> fl = [''--data-type'', ''l2_snapshot'', ''--coin'', coin])
        \<or> c = ''user-data'' \<and> fl = [''--data-type'', ''user_state'']
        \<or> c = ''user-data'' \<and> fl = [''--data-type'', ''open_orders''])"
  using assms
  by (auto simp: readResource_def resource_reply_spawned resource_args
           split: if_splits option.splits sum.splits)

text \<open>
  C7. \<open>runBridgeScript\<close>, through which every invocation goes, builds the argument list
  as the command, then \<open>--secret-key\<close> and the key, then \<open>--network\<close> and the network,
  then \<open>--account-address\<close> and the address exactly when the account address is set to a
  non-empty value, and after these the call-specific flags. For the call-tool handler
  the call-specific flags are those of the fields of the tool's case, each followed by
  its value, and none of them is one of the three configuration flags; for the
  read-resource handler they are the data-type flag and, for the order book, the coin.
\<close>

theorem invocation_layout:
  "(case call_flags fs of
      Inl e \<Rightarrow> runBridgeScript env cfg command fs = (Inl e, [])
    | Inr fl \<Rightarrow>
        snd (runBridgeScript env cfg command fs) =
          [[command, ''--secret-key'', secretKey cfg, ''--network'', network cfg]
           @ (if accountAddress cfg = None \<or> accountAddress cfg = Some []
              then [] else [''--account-address'', the (accountAddress cfg)])
           @ fl])
   \<and> (argv \<in> set (snd (callTool env cfg nm args)) \<longrightarrow>
        (\<exists>c gs fl. tool_request nm args = Inr (c, gs) \<and> call_flags gs = Inr fl
           \<and> c \<in> set bridge_commands
           \<and> argv = [c, ''--secret-key'', secretKey cfg, ''--network'', network cfg]
                     @ (if accountAddress cfg = None \<or> accountAddress cfg = Some []
                        then [] else [''--account-address'', the (accountAddress cfg)])
                     @ fl
           \<and> fl = concat (map (\<lambda>(f, r). [f, projr r]) (flag_pairs gs))
           \<and> (\<forall>f \<in> fst ` set (flag_pairs gs). f \<notin> set reserved_flags)))
   \<and> (argv' \<in> set (snd (readResource env cfg u)) \<longrightarrow>
        (\<exists>c fl. argv' = [c, ''--secret-key'', secretKey cfg, ''--network'', network cfg]
                     @ (if accountAddress cfg = None \<or> accountAddress cfg = Some []
                        then [] else [''--account-address'', the (accountAddress cfg)])
                     @ fl
           \<and> (c = ''market-data'' \<and> fl = [''--data-type'', ''all_mids'']
              \<or> (\<exists>coin. c = ''market-data'' \<and> fl = [''--data-type'', ''l2_snapshot'', ''--coin'', coin])
              \<or> c = ''user-data'' \<and> fl = [''--data-type'', ''user_state'']
              \<or> c = ''user-data'' \<and> fl = [''--data-type'', ''open_orders''])))"
proof (intro conjI impI)
  show "case call_flags fs of
      Inl e \<Rightarrow> runBridgeScript env cfg command fs = (Inl e, [])
    | Inr fl \<Rightarrow>
        snd (runBridgeScript env cfg command fs) =
          [[command, ''--secret-key'', secretKey cfg, ''--network'', network cfg]
           @ (if accountAddress cfg = None \<or> accountAddress cfg = Some []
              then [] else [''--account-address'', the (accountAddress cfg)])
           @ fl]"
    by (cases "call_flags fs")
      (auto simp: runBridgeScript_def bridge_args_def account_flags_def split: option.splits)
next
  assume "argv \<in> set (snd (callTool env cfg nm args))"
  then obtain c gs a where t: "tool_request nm args = Inr (c, gs)"
    and b: "bridge_args cfg c gs = Inr a" and a: "argv = a"
    by (cases "tool_request nm args"; cases "bridge_args cfg (fst (projr (tool_request nm args)))
          (snd (projr (tool_request nm args)))") (auto simp: callTool_spawned)
  from b obtain fl where fl: "call_flags gs = Inr fl"
    and a': "a = [c, ''--secret-key'', secretKey cfg, ''--network'', network cfg]
                 @ account_flags (accountAddress cfg) @ fl"
    by (auto simp: bridge_args_def split: sum.splits)
  from call_flags_pairs [OF fl] have p: "fl = concat (map (\<lambda>(f, r). [f, projr r]) (flag_pairs gs))"
    by blast
  have r: "\<forall>f \<in> fst ` set (flag_pairs gs). f \<notin> set reserved_flags"
    using call_flags_not_reserved [OF t] by blast
  from a a' have "argv = [c, ''--secret-key'', secretKey cfg, ''--network'', network cfg]
                     @ (if accountAddress cfg = None \<or> accountAddress cfg = Some []
                        then [] else [''--account-address'', the (accountAddress cfg)])
                     @ fl"
    by (simp only: account_flags_cases)
  with t fl p r tool_request_command [OF t]
  show "\<exists>c gs fl. tool_request nm args = Inr (c, gs) \<and> call_flags gs = Inr fl
           \<and> c \<in> set bridge_commands
           \<and> argv = [c, ''--secret-key'', secretKey cfg, ''--network'', network cfg]
                     @ (if accountAddress cfg = None \<or> accountAddress cfg = Some []
                        then [] else [''--account-address'', the (accountAddress cfg)])
                     @ fl
           \<and> fl = concat (map (\<lambda>(f, r). [f, projr r]) (flag_pairs gs))
           \<and> (\<forall>f \<in> fst ` set (flag_pairs gs). f \<notin> set reserved_flags)"
    by blast
next
  assume "argv' \<in> set (snd (readResource env cfg u))"
  from readResource_spawned [OF this]
  show "\<exists>c fl. argv' = [c, ''--secret-key'', secretKey cfg, ''--network'', network cfg]
                     @ (if accountAddress cfg = None \<or> accountAddress cfg = Some []
                        then [] else [''--account-address'', the (accountAddress cfg)])
                     @ fl
           \<and> (c = ''market-data'' \<and> fl = [''--data-type'', ''all_mids'']
              \<or> (\<exists>coin. c = ''market-data'' \<and> fl = [''--data-type'', ''l2_snapshot'', ''--coin'', coin])
              \<or> c = ''user-data'' \<and> fl = [''--data-type'', ''user_state'']
              \<or> c = ''user-data'' \<and> fl = [''--data-type'', ''open_orders''])"
    by (simp only: account_flags_cases)
qed


text \<open>
  C7, at a cancel-order invocation without and with a configured address, at the
  \<open>cancel_order\<close> call of the sample configuration, and at the all-mids resource.
\<close>

theorem invocation_layout_witness:
  "snd (runBridgeScript sample_env bare_config ''cancel-order''
         [(''coin'', JStr ''BTC''), (''oid'', JUndefined), (''cloid'', JUndefined)])
     = [[''cancel-order'', ''--secret-key'', ''0xkey'', ''--network'', ''testnet'', ''--coin'', ''BTC'']]
   \<and> snd (runBridgeScript sample_env sample_config ''cancel-order''
         [(''coin'', JStr ''BTC''), (''oid'', JUndefined), (''cloid'', JUndefined)])
     = [[''cancel-order'', ''--secret-key'', ''0xkey'', ''--network'', ''mainnet'',
         ''--account-address'', ''0xA11CE'', ''--coin'', ''BTC'']]
   \<and> [''cancel-order'', ''--secret-key'', ''0xkey'', ''--network'', ''mainnet'',
       ''--account-address'', ''0xA11CE'', ''--coin'', ''BTC'']
       \<in> set (snd (callTool sample_env sample_config ''cancel_order'' (Some [(''coin'', JStr ''BTC'')])))
   \<and> (\<exists>c gs fl. tool_request ''cancel_order'' (Some [(''coin'', JStr ''BTC'')]) = Inr (c, gs)
          \<and> call_flags gs = Inr fl
          \<and> [''cancel-order'', ''--secret-key'', ''0xkey'', ''--network'', ''mainnet'',
              ''--account-address'', ''0xA11CE'', ''--coin'', ''BTC'']
             = [c, ''--secret-key'', ''0xkey'', ''--network'', ''mainnet'', ''--account-address'', ''0xA11CE'']
               @ fl
          \<and> fst ` set (flag_pairs gs) \<inter> set reserved_flags = {})
   \<and> [''market-data'', ''--secret-key'', ''0xkey'', ''--network'', ''testnet'', ''--data-type'', ''all_mids'']
       \<in> set (snd (readResource sample_env bare_config ''hyperliquid://market/all-mids''))
   \<and> (\<exists>c fl. [''market-data'', ''--secret-key'', ''0xkey'', ''--network'', ''testnet'',
                 ''--data-type'', ''all_mids'']
               = [c, ''--secret-key'', ''0xkey'', ''--network'', ''testnet''] @ fl
          \<and> (c = ''market-data'' \<and> fl = [''--data-type'', ''all_mids'']
              \<or> (\<exists>coin. c = ''market-data'' \<and> fl = [''--data-type'', ''l2_snapshot'', ''--coin'', coin])
              \<or> c = ''user-data'' \<and> fl = [''--data-type'', ''user_state'']
              \<or> c = ''user-data'' \<and> fl = [''--data-type'', ''open_orders'']))"
proof -
  let ?fs = "[(''coin'', JStr ''BTC''), (''oid'', JUndefined), (''cloid'', JUndefined)]"
  let ?A = "[''cancel-order'', ''--secret-key'', ''0xkey'', ''--network'', ''mainnet'',
       ''--account-address'', ''0xA11CE'', ''--coin'', ''BTC'']"
  let ?R = "[''market-data'', ''--secret-key'', ''0xkey'', ''--network'', ''testnet'',
       ''--data-type'', ''all_mids'']"
  have cf: "call_flags ?fs = Inr [''--coin'', ''BTC'']"
    by (simp add: call_flags_Cons call_flags_Nil flag_names)
  have a: "snd (runBridgeScript sample_env bare_config ''cancel-order'' ?fs)
     = [[''cancel-order'', ''--secret-key'', ''0xkey'', ''--network'', ''testnet'', ''--coin'', ''BTC'']]"
    using invocation_layout [where fs = ?fs and env = sample_env and cfg = bare_config
        and command = "''cancel-order''", THEN conjunct1]
    by (simp add: cf bare_config_def)
  have b: "snd (runBridgeScript sample_env sample_config ''cancel-order'' ?fs) = [?A]"
    using invocation_layout [where fs = ?fs and env = sample_env and cfg = sample_config
        and command = "''cancel-order''", THEN conjunct1]
    by (simp add: cf sample_config_def)
  have m: "?A \<in> set (snd (callTool sample_env sample_config ''cancel_order'' (Some [(''coin'', JStr ''BTC'')])))"
    by (simp add: cancel_coin_only)
  have c: "\<exists>c gs fl. tool_request ''cancel_order'' (Some [(''coin'', JStr ''BTC'')]) = Inr (c, gs)
          \<and> call_flags gs = Inr fl
          \<and> ?A = [c, ''--secret-key'', ''0xkey'', ''--network'', ''mainnet'', ''--account-address'', ''0xA11CE'']
               @ fl
          \<and> fst ` set (flag_pairs gs) \<inter> set reserved_flags = {}"
  proof -
    from invocation_layout [where env = sample_env and cfg = sample_config and argv = ?A
        and nm = "''cancel_order''" and args = "Some [(''coin'', JStr ''BTC'')]",
        THEN conjunct2, THEN conjunct1, THEN mp, OF m]
    obtain c gs fl where t: "tool_request ''cancel_order'' (Some [(''coin'', JStr ''BTC'')]) = Inr (c, gs)"
      and f: "call_flags gs = Inr fl"
      and eq: "?A = [c, ''--secret-key'', secretKey sample_config, ''--network'', network sample_config]
                     @ (if accountAddress sample_config = None \<or> accountAddress sample_config = Some []
                        then [] else [''--account-address'', the (accountAddress sample_config)])
                     @ fl"
      and nr: "\<forall>f \<in> fst ` set (flag_pairs gs). f \<notin> set reserved_flags"
      by blast
    from nr have nr': "fst ` set (flag_pairs gs) \<inter> set reserved_flags = {}" by blast
    from eq have eq': "?A = [c, ''--secret-key'', ''0xkey'', ''--network'', ''mainnet'',
        ''--account-address'', ''0xA11CE''] @ fl"
      by (simp add: sample_config_def)
    from t f eq' nr' show ?thesis by blast
  qed
  have r: "?R \<in> set (snd (readResource sample_env bare_config ''hyperliquid://market/all-mids''))"
    by (simp add: readResource_def resource_reply_spawned resource_args bare_config_def
        account_flags_def)
  have d: "\<exists>c fl. ?R = [c, ''--secret-key'', ''0xkey'', ''--network'', ''testnet''] @ fl
          \<and> (c = ''market-data'' \<and> fl = [''--data-type'', ''all_mids'']
              \<or> (\<exists>coin. c = ''market-data'' \<and> fl = [''--data-type'', ''l2_snapshot'', ''--coin'', coin])
              \<or> c = ''user-data'' \<and> fl = [''--data-type'', ''user_state'']
              \<or> c = ''user-data'' \<and> fl = [''--data-type'', ''open_orders''])"
    using invocation_layout [where env = sample_env and cfg = bare_config and argv' = ?R
        and u = "''hyperliquid://market/all-mids''",
        THEN conjunct2, THEN conjunct2, THEN mp, OF r]
    by (simp add: bare_config_def)
  from a b m c r d show ?thesis by (intro conjI)
qed

text \<open>
  C1. What the handler does for a tool name that is not in the catalog: the
  method-not-found \<open>McpError\<close> of the \<open>default\<close> case is thrown inside the handler's own
  \<open>try\<close>, so the \<open>catch\<close> turns it into a tool result with the error flag set; nothing
  is thrown to the host.
\<close>

theorem unknown_tool_caught:
  "callTool env cfg ''delete_order'' args =
     (Inr \<lparr> content = Some ''Error executing tool delete_order: MCP error -32601: Unknown tool: delete_order'',
             isError = True \<rparr>, [])"
proof -
  have "''delete_order'' \<notin> set (map name listTools)" by (simp add: tool_names)
  then have "tool_request ''delete_order'' args
      = Inl (McpError MethodNotFound (''Unknown tool: '' @ ''delete_order''))"
    by (rule tool_request_unknown)
  then show ?thesis
    by (simp add: callTool_def caught_def McpError_message)
qed

text \<open>
  C2, as stated, fails: a \<open>cancel_order\<close> call with a coin and neither \<open>orderId\<close> nor
  \<open>clientOrderId\<close> spawns the bridge and is answered without the error flag.
\<close>

theorem cancel_without_id_spawns:
  "snd (callTool sample_env sample_config ''cancel_order'' (Some [(''coin'', JStr ''BTC'')]))
     = [[''cancel-order'', ''--secret-key'', ''0xkey'', ''--network'', ''mainnet'',
         ''--account-address'', ''0xA11CE'', ''--coin'', ''BTC'']]
   \<and> isError (projr (fst (callTool sample_env sample_config ''cancel_order''
                              (Some [(''coin'', JStr ''BTC'')])))) = False"
  by (simp add: cancel_coin_only)

lemma get_prop_printable:
  "\<forall>v \<in> snd ` set a. \<exists>s. js_String v = Inr s \<Longrightarrow> \<exists>s. js_String (get_prop a k) = Inr s"
  by (cases "map_of a k") (auto simp: get_prop_def dest!: map_of_SomeD)

lemma true_false_printable: "\<exists>s. js_String (true_false v) = Inr s"
  by (simp add: true_false_def)

lemma tool_request_printable:
  assumes "tool_request nm (Some a) = Inr (c, gs)"
    and p: "\<forall>v \<in> snd ` set a. \<exists>s. js_String v = Inr s"
  shows "\<forall>(k, v) \<in> set gs. v \<noteq> JUndefined \<and> v \<noteq> JNull \<longrightarrow> (\<exists>s. js_String v = Inr s)"
proof -
  note g = get_prop_printable [OF p]
  from tool_request_known [OF assms(1)] have nm: "nm \<in> set (map name listTools)" by blast
  from assms(1) have gs: "gs = snd (projr (tool_request nm (Some a)))" by simp
  from nm have "nm = ''get_market_data'' \<or> nm = ''get_user_data''
      \<or> nm = ''place_limit_order'' \<or> nm = ''place_market_order''
      \<or> nm = ''cancel_order'' \<or> nm = ''update_leverage''"
    by (simp add: tool_names)
  then consider "nm = ''get_market_data''" | "nm = ''get_user_data''"
    | "nm = ''place_limit_order''" | "nm = ''place_market_order''"
    | "nm = ''cancel_order''" | "nm = ''update_leverage''"
    by argo
  then show ?thesis
  proof cases
    case 1 with gs show ?thesis by (simp add: tool_request_fields g true_false_printable)
  next
    case 2 with gs show ?thesis by (simp add: tool_request_fields g true_false_printable)
  next
    case 3 with gs show ?thesis by (simp add: tool_request_fields g true_false_printable)
  next
    case 4 with gs show ?thesis by (simp add: tool_request_fields g true_false_printable)
  next
    case 5 with gs show ?thesis by (simp add: tool_request_fields g true_false_printable)
  next
    case 6 with gs show ?thesis by (simp add: tool_request_fields g true_false_printable)
  qed
qed

text \<open>
  C2, amended. For a tool of the catalog the handler checks, before any subprocess is
  spawned, that the request has an arguments object: without one the call is answered
  with the error result \<open>Arguments are required\<close> and nothing is spawned. With one, no
  field is checked for presence: the fields of the tool's case are marshalled, and
  either \<open>String\<close> throws on one of the values, the call is answered with that error and
  nothing is spawned, or exactly one subprocess is spawned. The latter is the case
  whenever every value of the arguments has a string, whichever fields are there.
\<close>

theorem arguments_checked_before_spawn:
  "nm \<in> set (map name listTools) \<Longrightarrow>
     (args = None \<longrightarrow>
        callTool env cfg nm args =
          (Inr \<lparr> content = Some (''Error executing tool '' @ nm @ '': Arguments are required''),
                  isError = True \<rparr>, []))
     \<and> (\<forall>a. args = Some a \<longrightarrow>
          (\<exists>c gs. tool_request nm args = Inr (c, gs)
             \<and> (case call_flags gs of
                  Inl e \<Rightarrow>
                    callTool env cfg nm args =
                      (Inr \<lparr> content = Some (''Error executing tool '' @ nm
                                @ '': Cannot convert object to primitive value''),
                              isError = True \<rparr>, [])
                | Inr fl \<Rightarrow>
                    snd (callTool env cfg nm args) =
                      [[c, ''--secret-key'', secretKey cfg, ''--network'', network cfg]
                       @ account_flags (accountAddress cfg) @ fl]))
          \<and> ((\<forall>v \<in> snd ` set a. \<exists>s. js_String v = Inr s) \<longrightarrow>
                length (snd (callTool env cfg nm args)) = 1))"
proof (intro conjI impI allI)
  assume nm: "nm \<in> set (map name listTools)" and "args = None"
  then show "callTool env cfg nm args =
          (Inr \<lparr> content = Some (''Error executing tool '' @ nm @ '': Arguments are required''),
                  isError = True \<rparr>, [])"
    by (simp add: callTool_def tool_request_no_args args_required_def caught_Error)
next
  fix a assume nm: "nm \<in> set (map name listTools)" and a: "args = Some a"
  from tool_request_with_args [OF nm, of a] obtain c gs
    where t: "tool_request nm (Some a) = Inr (c, gs)" by blast
  have "case call_flags gs of
          Inl e \<Rightarrow>
            callTool env cfg nm args =
              (Inr \<lparr> content = Some (''Error executing tool '' @ nm
                        @ '': Cannot convert object to primitive value''),
                      isError = True \<rparr>, [])
        | Inr fl \<Rightarrow>
            snd (callTool env cfg nm args) =
              [[c, ''--secret-key'', secretKey cfg, ''--network'', network cfg]
               @ account_flags (accountAddress cfg) @ fl]"
  proof (cases "call_flags gs")
    case (Inl e)
    then have "e = cannot_convert" by (rule call_flags_error)
    with Inl t a show ?thesis
      by (simp add: callTool_def runBridgeScript_def bridge_args_def cannot_convert_def caught_Error)
  next
    case (Inr fl)
    with t a show ?thesis
      by (simp add: callTool_spawned bridge_args_def)
  qed
  with t a show "\<exists>c gs. tool_request nm args = Inr (c, gs)
             \<and> (case call_flags gs of
                  Inl e \<Rightarrow>
                    callTool env cfg nm args =
                      (Inr \<lparr> content = Some (''Error executing tool '' @ nm
                                @ '': Cannot convert object to primitive value''),
                              isError = True \<rparr>, [])
                | Inr fl \<Rightarrow>
                    snd (callTool env cfg nm args) =
                      [[c, ''--secret-key'', secretKey cfg, ''--network'', network cfg]
                       @ account_flags (accountAddress cfg) @ fl])"
    by blast
next
  fix a assume nm: "nm \<in> set (map name listTools)" and a: "args = Some a"
    and p: "\<forall>v \<in> snd ` set a. \<exists>s. js_String v = Inr s"
  from tool_request_with_args [OF nm, of a] obtain c gs
    where t: "tool_request nm (Some a) = Inr (c, gs)" by blast
  from call_flags_printable [OF tool_request_printable [OF t p]]
  obtain fl where "call_flags gs = Inr fl" by blast
  with t a show "length (snd (callTool env cfg nm args)) = 1"
    by (simp add: callTool_spawned bridge_args_def)
qed


text \<open>
  C2, amended, at \<open>cancel_order\<close>: without arguments, with a coin only, and with a coin
  that has no string.
\<close>

theorem arguments_checked_before_spawn_witness:
  "''cancel_order'' \<in> set (map name listTools)
   \<and> callTool sample_env sample_config ''cancel_order'' None
       = (Inr \<lparr> content = Some ''Error executing tool cancel_order: Arguments are required'',
                 isError = True \<rparr>, [])
   \<and> js_String (JStr ''BTC'') = Inr ''BTC''
   \<and> length (snd (callTool sample_env sample_config ''cancel_order'' (Some [(''coin'', JStr ''BTC'')]))) = 1
   \<and> call_flags [(''coin'', unprintable), (''oid'', JUndefined), (''cloid'', JUndefined)]
       = Inl (ErrorObj ''TypeError'' ''Cannot convert object to primitive value'')
   \<and> callTool sample_env sample_config ''cancel_order'' (Some [(''coin'', unprintable)])
       = (Inr \<lparr> content = Some ''Error executing tool cancel_order: Cannot convert object to primitive value'',
                 isError = True \<rparr>, [])"
proof -
  have nm: "''cancel_order'' \<in> set (map name listTools)" by (simp add: tool_names)
  note t1 = arguments_checked_before_spawn [OF nm, of None sample_env sample_config]
  note t2 = arguments_checked_before_spawn [OF nm, of "Some [(''coin'', JStr ''BTC'')]" sample_env sample_config]
  note t3 = arguments_checked_before_spawn [OF nm, of "Some [(''coin'', unprintable)]" sample_env sample_config]
  from t1 have a: "callTool sample_env sample_config ''cancel_order'' None
       = (Inr \<lparr> content = Some ''Error executing tool cancel_order: Arguments are required'',
                 isError = True \<rparr>, [])"
    by simp
  have p: "\<forall>v \<in> snd ` set [(''coin'', JStr ''BTC'')]. \<exists>s. js_String v = Inr s" by simp
  from t2 [THEN conjunct2, rule_format, OF refl, THEN conjunct2, THEN mp, OF p]
  have b: "length (snd (callTool sample_env sample_config ''cancel_order'' (Some [(''coin'', JStr ''BTC'')]))) = 1" .
  have r: "tool_request ''cancel_order'' (Some [(''coin'', unprintable)])
      = Inr (''cancel-order'', [(''coin'', unprintable), (''oid'', JUndefined), (''cloid'', JUndefined)])"
    by (simp add: tool_request_fields get_prop_def)
  have cf: "call_flags [(''coin'', unprintable), (''oid'', JUndefined), (''cloid'', JUndefined)]
       = Inl (ErrorObj ''TypeError'' ''Cannot convert object to primitive value'')"
    by (simp add: call_flags_Cons unprintable_def cannot_convert_def)
  from t3 [THEN conjunct2, rule_format, OF refl, THEN conjunct1]
  have c: "callTool sample_env sample_config ''cancel_order'' (Some [(''coin'', unprintable)])
       = (Inr \<lparr> content = Some ''Error executing tool cancel_order: Cannot convert object to primitive value'',
                 isError = True \<rparr>, [])"
    by (simp add: r cf)
  have p': "js_String (JStr ''BTC'') = Inr ''BTC''" by simp
  from nm a p' b cf c show ?thesis by (intro conjI)
qed

text \<open>
  C5. The \<open>place_limit_order\<close> call with coin BTC, \<open>isBuy\<close> true, size 0.1, price 50000 and
  time in force \<open>Gtc\<close> spawns the command \<open>place-order\<close>, and its flags include
  \<open>--order-type\<close> followed by the JSON text of the nested order type.
\<close>

theorem limit_order_marshalling:
  \<open>snd (callTool env cfg ''place_limit_order''
      (Some [(''coin'', JStr ''BTC''), (''isBuy'', JBool True), (''size'', JDec ''0.1''),
             (''price'', JInt 50000), (''timeInForce'', JStr ''Gtc'')]))
   = [[''place-order'', ''--secret-key'', secretKey cfg, ''--network'', network cfg]
       @ account_flags (accountAddress cfg)
       @ [''--coin'', ''BTC'', ''--is-buy'', ''true'', ''--size'', ''0.1'', ''--price'', ''50000'',
          ''--order-type'', ''{"limit":{"tif":"Gtc"}}'', ''--reduce-only'', ''false'']]\<close>
proof -
  have n: "int_text 50000 = ''50000''"
    by (simp add: int_text_def nat_digits.simps digit_chars)
  have q: \<open>JSON_stringify [] [] (JObj [(''limit'', JObj [(''tif'', JStr ''Gtc'')])])
      = Some ''{"limit":{"tif":"Gtc"}}''\<close>
    by (simp add: wrap_def json_quote_def json_escape_def)
  have r: \<open>tool_request ''place_limit_order''
      (Some [(''coin'', JStr ''BTC''), (''isBuy'', JBool True), (''size'', JDec ''0.1''),
             (''price'', JInt 50000), (''timeInForce'', JStr ''Gtc'')])
    = Inr (''place-order'',
        [(''coin'', JStr ''BTC''), (''isBuy'', JStr ''true''), (''size'', JDec ''0.1''),
         (''price'', JInt 50000), (''orderType'', JStr ''{"limit":{"tif":"Gtc"}}''),
         (''reduceOnly'', JStr ''false''), (''cloid'', JUndefined)])\<close>
    by (simp add: tool_request_def get_prop_def true_false_def q del: JSON_stringify.simps)
  show ?thesis
    by (simp add: callTool_spawned r bridge_args_def call_flags_Cons call_flags_Nil flag_names n)
qed

section \<open>Optional fields\<close>

lemma get_prop_absent: "f \<notin> fst ` set a \<Longrightarrow> get_prop a f = JUndefined"
  using map_of_eq_None_iff [of a f] by (simp add: get_prop_def)

lemma listTools_optional:
  "map (\<lambda>t. (name t, optional_fields t)) listTools =
     [(''get_market_data'', [''coin'', ''interval'', ''startTime'', ''endTime'']),
      (''get_user_data'', [''startTime'', ''endTime'']),
      (''place_limit_order'', [''reduceOnly'', ''clientOrderId'']),
      (''place_market_order'', [''slippage'', ''clientOrderId'']),
      (''cancel_order'', [''orderId'', ''clientOrderId'']),
      (''update_leverage'', [''isCross''])]"
  by (simp add: listTools_def optional_fields_def)

lemma optional_cases:
  assumes "t \<in> set listTools" "f \<in> set (optional_fields t)"
  shows "(name t, f) \<in> set optional_pairs"
proof -
  have "list_all (\<lambda>(n, fs). list_all (\<lambda>f. (n, f) \<in> set optional_pairs) fs)
          (map (\<lambda>t. (name t, optional_fields t)) listTools)"
    by (simp only: listTools_optional) (simp add: optional_pairs_def)
  then have "\<forall>t \<in> set listTools. \<forall>f \<in> set (optional_fields t). (name t, f) \<in> set optional_pairs"
    by (simp add: list_all_iff)
  with assms show ?thesis by blast
qed


lemma true_false_defined: "true_false v \<noteq> JUndefined" "true_false v \<noteq> JNull"
  by (simp_all add: true_false_def)

text \<open>
  C3, as stated, fails: \<open>isCross\<close> is an optional field of \<open>update_leverage\<close>, and a
  call without it is given the defaulted flag \<open>--is-cross true\<close>.
\<close>

theorem absent_isCross_defaulted:
  "''isCross'' \<in> set (optional_fields (listTools ! 5))
   \<and> ''isCross'' \<notin> fst ` set [(''coin'', JStr ''BTC''), (''leverage'', JInt 5)]
   \<and> snd (callTool sample_env sample_config ''update_leverage''
          (Some [(''coin'', JStr ''BTC''), (''leverage'', JInt 5)]))
     = [[''update-leverage'', ''--secret-key'', ''0xkey'', ''--network'', ''mainnet'',
         ''--account-address'', ''0xA11CE'', ''--coin'', ''BTC'', ''--leverage'', ''5'',
         ''--is-cross'', ''true'']]"
proof -
  have a: "''isCross'' \<in> set (optional_fields (listTools ! 5))"
    by (simp add: listTools_def optional_fields_def)
  have b: "''isCross'' \<notin> fst ` set [(''coin'', JStr ''BTC''), (''leverage'', JInt 5)]"
    by simp
  have c: "snd (callTool sample_env sample_config ''update_leverage''
          (Some [(''coin'', JStr ''BTC''), (''leverage'', JInt 5)]))
     = [[''update-leverage'', ''--secret-key'', ''0xkey'', ''--network'', ''mainnet'',
         ''--account-address'', ''0xA11CE'', ''--coin'', ''BTC'', ''--leverage'', ''5'',
         ''--is-cross'', ''true'']]"
    by code_simp
  from a b c show ?thesis by (simp only: simp_thms)
qed

text \<open>
  C3, amended. An optional field that is absent from the arguments of a call produces
  no flag in the invocation, with two exceptions: \<open>place_limit_order\<close> passes
  \<open>--reduce-only false\<close> when \<open>reduceOnly\<close> is absent, and \<open>update_leverage\<close> passes
  \<open>--is-cross true\<close> when \<open>isCross\<close> is absent.
\<close>

theorem absent_optional_field:
  assumes "t \<in> set listTools" and "f \<in> set (optional_fields t)" and "f \<notin> fst ` set a"
    and "tool_request (name t) (Some a) = Inr (c, fs)"
  shows "if (name t, f) = (''place_limit_order'', ''reduceOnly'')
           then (''--reduce-only'', Inr ''false'') \<in> set (flag_pairs fs)
         else if (name t, f) = (''update_leverage'', ''isCross'')
           then (''--is-cross'', Inr ''true'') \<in> set (flag_pairs fs)
         else ''--'' @ flag_name (bridge_field f) \<notin> fst ` set (flag_pairs fs)"
proof -
  note u = get_prop_absent [OF assms(3)]
  have fs: "fs = snd (projr (tool_request (name t) (Some a)))"
    using assms(4) by simp
  note ev = flag_pairs_fst flag_names bridge_field_def true_false_defined
  from optional_cases [OF assms(1,2)]
  have "(name t, f) \<in> set optional_pairs" .
  then consider
      (mc) "name t = ''get_market_data''" "f = ''coin''"
    | (mi) "name t = ''get_market_data''" "f = ''interval''"
    | (ms) "name t = ''get_market_data''" "f = ''startTime''"
    | (me) "name t = ''get_market_data''" "f = ''endTime''"
    | (us) "name t = ''get_user_data''" "f = ''startTime''"
    | (ue) "name t = ''get_user_data''" "f = ''endTime''"
    | (lr) "name t = ''place_limit_order''" "f = ''reduceOnly''"
    | (lc) "name t = ''place_limit_order''" "f = ''clientOrderId''"
    | (ks) "name t = ''place_market_order''" "f = ''slippage''"
    | (kc) "name t = ''place_market_order''" "f = ''clientOrderId''"
    | (co) "name t = ''cancel_order''" "f = ''orderId''"
    | (cc) "name t = ''cancel_order''" "f = ''clientOrderId''"
    | (vx) "name t = ''update_leverage''" "f = ''isCross''"
    unfolding optional_pairs_def set_simps insert_iff empty_iff prod.inject by argo
  then show ?thesis
  proof cases
    case mc with fs u show ?thesis by (simp add: tool_request_fields ev)
  next
    case mi with fs u show ?thesis by (simp add: tool_request_fields ev)
  next
    case ms with fs u show ?thesis by (simp add: tool_request_fields ev)
  next
    case me with fs u show ?thesis by (simp add: tool_request_fields ev)
  next
    case us with fs u show ?thesis by (simp add: tool_request_fields ev)
  next
    case ue with fs u show ?thesis by (simp add: tool_request_fields ev)
  next
    case lr
    with fs u have "(''reduceOnly'', JStr ''false'') \<in> set fs"
      by (simp add: tool_request_fields true_false_def del: JSON_stringify.simps)
    from flag_pairs_mem [OF this] lr show ?thesis by (simp add: flag_names)
  next
    case lc with fs u show ?thesis by (simp add: tool_request_fields ev)
  next
    case ks with fs u show ?thesis by (simp add: tool_request_fields ev)
  next
    case kc with fs u show ?thesis by (simp add: tool_request_fields ev)
  next
    case co with fs u show ?thesis by (simp add: tool_request_fields ev)
  next
    case cc with fs u show ?thesis by (simp add: tool_request_fields ev)
  next
    case vx
    with fs u have "(''isCross'', JStr ''true'') \<in> set fs"
      by (simp add: tool_request_fields)
    from flag_pairs_mem [OF this] vx show ?thesis by (simp add: flag_names)
  qed
qed


text \<open>C3, amended, at \<open>cancel_order\<close> called without \<open>orderId\<close>.\<close>

theorem absent_optional_field_witness:
  "listTools ! 4 \<in> set listTools
   \<and> ''orderId'' \<in> set (optional_fields (listTools ! 4))
   \<and> ''orderId'' \<notin> fst ` set [(''coin'', JStr ''BTC'')]
   \<and> tool_request (name (listTools ! 4)) (Some [(''coin'', JStr ''BTC'')])
       = Inr (''cancel-order'', [(''coin'', JStr ''BTC''), (''oid'', JUndefined), (''cloid'', JUndefined)])
   \<and> ''--oid'' \<notin> fst ` set (flag_pairs [(''coin'', JStr ''BTC''), (''oid'', JUndefined), (''cloid'', JUndefined)])"
proof -
  have n: "name (listTools ! 4) = ''cancel_order''"
    by (simp add: listTools_def)
  have h1: "listTools ! 4 \<in> set listTools"
    by (rule nth_mem) (simp add: listTools_def)
  have h2: "''orderId'' \<in> set (optional_fields (listTools ! 4))"
    by (simp add: listTools_def optional_fields_def)
  have h3: "''orderId'' \<notin> fst ` set [(''coin'', JStr ''BTC'')]"
    by simp
  have h4: "tool_request (name (listTools ! 4)) (Some [(''coin'', JStr ''BTC'')])
       = Inr (''cancel-order'', [(''coin'', JStr ''BTC''), (''oid'', JUndefined), (''cloid'', JUndefined)])"
    by (simp add: n tool_request_fields get_prop_def)
  have k: "flag_name (bridge_field ''orderId'') = ''oid''"
    by (simp add: bridge_field_def flag_names)
  from absent_optional_field [OF h1 h2 h3 h4]
  have "''--oid'' \<notin> fst ` set (flag_pairs [(''coin'', JStr ''BTC''), (''oid'', JUndefined), (''cloid'', JUndefined)])"
    by (simp add: n k)
  with h1 h2 h3 h4 show ?thesis by (simp only: simp_thms)
qed

section \<open>The outcome of a tool call\<close>










section \<open>Resource matching\<close>

lemma capture_iff:
  "capture pre suf u = Some seg \<longleftrightarrow> anchored_match pre suf u seg"
proof
  assume "capture pre suf u = Some seg"
  then have p: "prefix pre u" and q: "suffix suf (drop (length pre) u)"
    and s: "seg = take (length u - length pre - length suf) (drop (length pre) u)"
    and n: "seg \<noteq> []" "CHR ''/'' \<notin> set seg"
    by (auto simp: capture_def Let_def split: if_splits)
  from p obtain r where r: "u = pre @ r" by (auto elim: prefixE)
  with q obtain m where m: "r = m @ suf" by (auto elim: suffixE)
  from s r m have "seg = m" by simp
  with r m n show "anchored_match pre suf u seg" by (simp add: anchored_match_def)
next
  assume "anchored_match pre suf u seg"
  then show "capture pre suf u = Some seg"
    by (simp add: anchored_match_def capture_def suffix_def)
qed

lemma capture_None_iff:
  "capture pre suf u = None \<longleftrightarrow> (\<forall>seg. \<not> anchored_match pre suf u seg)"
  using capture_iff [of pre suf u] by (cases "capture pre suf u") auto

lemma anchored_match_unique:
  "anchored_match pre suf u seg \<Longrightarrow> anchored_match pre suf u seg' \<Longrightarrow> seg = seg'"
  using capture_iff [of pre suf u] by (metis option.inject)

lemma user_not_literal:
  "''hyperliquid://user/'' @ rest \<noteq> ''hyperliquid://market/all-mids''"
  by simp

lemma l2_not_literal:
  "''hyperliquid://market/l2-book/'' @ rest \<noteq> ''hyperliquid://market/all-mids''"
  by simp

lemma user_not_l2: "l2BookMatch (''hyperliquid://user/'' @ rest) = None"
  by (simp add: l2BookMatch_def capture_def)

lemma orders_not_state:
  "userStateMatch (''hyperliquid://user/'' @ seg @ ''/open-orders'') = None"
proof -
  have "\<not> anchored_match ''hyperliquid://user/'' ''/state''
          (''hyperliquid://user/'' @ seg @ ''/open-orders'') seg'" for seg'
  proof
    assume "anchored_match ''hyperliquid://user/'' ''/state''
          (''hyperliquid://user/'' @ seg @ ''/open-orders'') seg'"
    then have "seg @ ''/open-orders'' = seg' @ ''/state''"
      by (simp add: anchored_match_def)
    then have "last (seg @ ''/open-orders'') = last (seg' @ ''/state'')"
      by (rule arg_cong)
    then show False by simp
  qed
  then show ?thesis
    by (simp add: userStateMatch_def capture_None_iff)
qed

lemma read_l2:
  assumes "anchored_match ''hyperliquid://market/l2-book/'' [] u seg"
  shows "readResource env cfg u =
     (case decodeURIComponent seg of
        Inl e \<Rightarrow> (Inl e, [])
      | Inr coin \<Rightarrow> resource_reply env cfg u ''market-data''
                     [(''dataType'', JStr ''l2_snapshot''), (''coin'', JStr coin)])"
proof -
  from assms have m: "l2BookMatch u = Some seg"
    by (simp only: l2BookMatch_def capture_iff)
  from assms have "u = ''hyperliquid://market/l2-book/'' @ seg"
    by (simp add: anchored_match_def)
  then have "u \<noteq> ''hyperliquid://market/all-mids''"
    using l2_not_literal by simp
  with m show ?thesis by (simp add: readResource_def)
qed

lemma read_state:
  assumes "anchored_match ''hyperliquid://user/'' ''/state'' u seg"
  shows "readResource env cfg u =
     (case decodeURIComponent seg of
        Inl e \<Rightarrow> (Inl e, [])
      | Inr address \<Rightarrow> resource_reply env cfg u ''user-data'' [(''dataType'', JStr ''user_state'')])"
proof -
  from assms have m: "userStateMatch u = Some seg"
    by (simp only: userStateMatch_def capture_iff)
  from assms have u: "u = ''hyperliquid://user/'' @ (seg @ ''/state'')"
    by (simp add: anchored_match_def)
  have a: "u \<noteq> ''hyperliquid://market/all-mids''"
    unfolding u by (rule user_not_literal)
  have b: "l2BookMatch u = None"
    unfolding u by (rule user_not_l2)
  from m a b show ?thesis by (simp add: readResource_def)
qed

lemma read_orders:
  assumes "anchored_match ''hyperliquid://user/'' ''/open-orders'' u seg"
  shows "readResource env cfg u =
     (case decodeURIComponent seg of
        Inl e \<Rightarrow> (Inl e, [])
      | Inr address \<Rightarrow> resource_reply env cfg u ''user-data'' [(''dataType'', JStr ''open_orders'')])"
proof -
  from assms have m: "openOrdersMatch u = Some seg"
    by (simp only: openOrdersMatch_def capture_iff)
  from assms have u: "u = ''hyperliquid://user/'' @ (seg @ ''/open-orders'')"
    and u': "u = ''hyperliquid://user/'' @ seg @ ''/open-orders''"
    by (simp_all add: anchored_match_def)
  have a: "u \<noteq> ''hyperliquid://market/all-mids''"
    unfolding u by (rule user_not_literal)
  have b: "l2BookMatch u = None"
    unfolding u by (rule user_not_l2)
  have c: "userStateMatch u = None"
    unfolding u' by (rule orders_not_state)
  from m a b c show ?thesis by (simp add: readResource_def)
qed

lemma read_unmatched:
  assumes "u \<noteq> ''hyperliquid://market/all-mids''"
    and "\<forall>seg. \<not> anchored_match ''hyperliquid://market/l2-book/'' [] u seg"
    and "\<forall>seg. \<not> anchored_match ''hyperliquid://user/'' ''/state'' u seg"
    and "\<forall>seg. \<not> anchored_match ''hyperliquid://user/'' ''/open-orders'' u seg"
  shows "readResource env cfg u = (Inl (McpError InvalidRequest (''Invalid URI format: '' @ u)), [])"
proof -
  from assms(2) have a: "l2BookMatch u = None"
    by (simp add: l2BookMatch_def capture_None_iff)
  from assms(3) have b: "userStateMatch u = None"
    by (simp add: userStateMatch_def capture_None_iff)
  from assms(4) have c: "openOrdersMatch u = None"
    by (simp add: openOrdersMatch_def capture_None_iff)
  from assms(1) a b c show ?thesis by (simp add: readResource_def)
qed


lemma example_matches:
  "anchored_match ''hyperliquid://market/l2-book/'' [] ''hyperliquid://market/l2-book/BTC'' ''BTC''"
  "anchored_match ''hyperliquid://user/'' ''/state'' ''hyperliquid://user/0xABC/state'' ''0xABC''"
  "anchored_match ''hyperliquid://user/'' ''/open-orders'' ''hyperliquid://user/0xABC/open-orders'' ''0xABC''"
  "anchored_match ''hyperliquid://user/'' ''/state'' ''hyperliquid://user/%/state'' ''%''"
  by (simp_all add: anchored_match_def)

lemma example_decodes:
  "decodeURIComponent ''BTC'' = Inr ''BTC''"
  "decodeURIComponent ''0xABC'' = Inr ''0xABC''"
  "decodeURIComponent ''0xDEF'' = Inr ''0xDEF''"
  "decodeURIComponent ''%'' = Inl (ErrorObj ''URIError'' ''URI malformed'')"
  by code_simp+

lemma bogus_unmatched:
  "''hyperliquid://bogus'' \<noteq> ''hyperliquid://market/all-mids''"
  "\<forall>seg. \<not> anchored_match ''hyperliquid://market/l2-book/'' [] ''hyperliquid://bogus'' seg"
  "\<forall>seg. \<not> anchored_match ''hyperliquid://user/'' ''/state'' ''hyperliquid://bogus'' seg"
  "\<forall>seg. \<not> anchored_match ''hyperliquid://user/'' ''/open-orders'' ''hyperliquid://bogus'' seg"
  by (simp_all add: anchored_match_def)

lemma escape_decodes:
  "decodeURIComponent ''BTC%2DUSD'' = Inr ''BTC-USD''"
  "decodeURIComponent ''%E2%82%AC'' = Inr [CHR 0xE2, CHR 0x82, CHR 0xAC]"
  "decodeURIComponent ''100%zz'' = Inl (ErrorObj ''URIError'' ''URI malformed'')"
  "decodeURIComponent ''%C0%80'' = Inl (ErrorObj ''URIError'' ''URI malformed'')"
  by code_simp+

lemma hex_val_hex_upper: "d < 16 \<Longrightarrow> hex_val (hex_upper d) = Some d"
  by (auto simp: hex_val_def hex_upper_def Let_def)

lemma tokens_percent_encode:
  "\<forall>c \<in> set s. c = CHR ''%'' \<longrightarrow> esc c \<Longrightarrow>
     uri_tokens (percent_encode esc s) = Some (map (\<lambda>c. if esc c then Octet (of_char c) else Lit c) s)"
proof (induction s)
  case Nil
  show ?case by (simp add: percent_encode_def)
next
  case (Cons c s)
  then have ih: "uri_tokens (percent_encode esc s)
      = Some (map (\<lambda>c. if esc c then Octet (of_char c) else Lit c) s)"
    by simp
  have pe: "percent_encode esc (c # s)
      = (if esc c then [CHR ''%'', hex_upper (of_char c div 16), hex_upper (of_char c mod 16)] else [c])
        @ percent_encode esc s"
    by (simp add: percent_encode_def)
  show ?case
  proof (cases "esc c")
    case True
    have "(of_char c :: nat) div 16 < 16"
      using nat_of_char_less_256 [of c] by arith
    then have h: "hex_val (hex_upper ((of_char c :: nat) div 16)) = Some (of_char c div 16)"
      by (rule hex_val_hex_upper)
    have l: "hex_val (hex_upper ((of_char c :: nat) mod 16)) = Some (of_char c mod 16)"
      by (intro hex_val_hex_upper) simp
    from True show ?thesis by (simp add: pe ih h l)
  next
    case False
    with Cons.prems have "c \<noteq> CHR ''%''" by auto
    with False show ?thesis by (simp add: pe ih)
  qed
qed

lemma decode_ascii_tokens:
  "\<forall>c \<in> set s. (of_char c :: nat) < 128 \<Longrightarrow>
     decode_tokens (map (\<lambda>c. if esc c then Octet (of_char c) else Lit c) s) = Some s"
  by (induction s) (simp_all add: utf8_length_def valid_utf8_def)

lemma decode_percent_encode:
  "\<forall>c \<in> set s. (of_char c :: nat) < 128 \<Longrightarrow> \<forall>c \<in> set s. c = CHR ''%'' \<longrightarrow> esc c \<Longrightarrow>
     decodeURIComponent (percent_encode esc s) = Inr s"
  by (simp add: decodeURIComponent_def tokens_percent_encode decode_ascii_tokens)

text \<open>
  C6. Reading a resource compares the URI with the literal \<open>hyperliquid://market/all-mids\<close>
  first; then the three templates are tried in order, each as an anchored match whose
  placeholder is one or more characters other than \<open>/\<close>, and the captured segment is
  percent-decoded; a URI that is not the literal and matches no template raises the
  invalid-request error. The l2-book URI for BTC captures \<open>BTC\<close>, the state URI of
  \<open>0xABC\<close> captures \<open>0xABC\<close>, and \<open>hyperliquid://bogus\<close> raises invalid-request.
  Percent-decoding undoes the percent-encoding of every ASCII text, whichever of its
  characters are escaped: the segment \<open>BTC%2DUSD\<close> is passed to the bridge as the coin
  \<open>BTC-USD\<close>; the escaped bytes of a multi-byte character are decoded together; a
  segment with a malformed escape raises \<open>URIError\<close> and nothing is spawned.
\<close>

theorem resource_matching:
  "readResource env cfg ''hyperliquid://market/all-mids''
     = resource_reply env cfg ''hyperliquid://market/all-mids'' ''market-data''
         [(''dataType'', JStr ''all_mids'')]
   \<and> (\<forall>seg. anchored_match ''hyperliquid://market/l2-book/'' [] u seg \<longrightarrow>
         l2BookMatch u = Some seg
         \<and> readResource env cfg u =
            (case decodeURIComponent seg of
               Inl e \<Rightarrow> (Inl e, [])
             | Inr coin \<Rightarrow> resource_reply env cfg u ''market-data''
                            [(''dataType'', JStr ''l2_snapshot''), (''coin'', JStr coin)]))
   \<and> (\<forall>seg. anchored_match ''hyperliquid://user/'' ''/state'' u seg \<longrightarrow>
         userStateMatch u = Some seg
         \<and> readResource env cfg u =
            (case decodeURIComponent seg of
               Inl e \<Rightarrow> (Inl e, [])
             | Inr address \<Rightarrow> resource_reply env cfg u ''user-data''
                               [(''dataType'', JStr ''user_state'')]))
   \<and> (\<forall>seg. anchored_match ''hyperliquid://user/'' ''/open-orders'' u seg \<longrightarrow>
         openOrdersMatch u = Some seg
         \<and> readResource env cfg u =
            (case decodeURIComponent seg of
               Inl e \<Rightarrow> (Inl e, [])
             | Inr address \<Rightarrow> resource_reply env cfg u ''user-data''
                               [(''dataType'', JStr ''open_orders'')]))
   \<and> (u \<noteq> ''hyperliquid://market/all-mids''
        \<and> (\<forall>seg. \<not> anchored_match ''hyperliquid://market/l2-book/'' [] u seg)
        \<and> (\<forall>seg. \<not> anchored_match ''hyperliquid://user/'' ''/state'' u seg)
        \<and> (\<forall>seg. \<not> anchored_match ''hyperliquid://user/'' ''/open-orders'' u seg) \<longrightarrow>
         readResource env cfg u = (Inl (McpError InvalidRequest (''Invalid URI format: '' @ u)), []))
   \<and> l2BookMatch ''hyperliquid://market/l2-book/BTC'' = Some ''BTC''
   \<and> decodeURIComponent ''BTC'' = Inr ''BTC''
   \<and> userStateMatch ''hyperliquid://user/0xABC/state'' = Some ''0xABC''
   \<and> decodeURIComponent ''0xABC'' = Inr ''0xABC''
   \<and> readResource env cfg ''hyperliquid://bogus''
       = (Inl (McpError InvalidRequest ''Invalid URI format: hyperliquid://bogus''), [])
   \<and> ((\<forall>c \<in> set s. (of_char c :: nat) < 128) \<and> (\<forall>c \<in> set s. c = CHR ''%'' \<longrightarrow> esc c) \<longrightarrow>
         decodeURIComponent (percent_encode esc s) = Inr s)
   \<and> decodeURIComponent ''BTC%2DUSD'' = Inr ''BTC-USD''
   \<and> decodeURIComponent ''%E2%82%AC'' = Inr [CHR 0xE2, CHR 0x82, CHR 0xAC]
   \<and> decodeURIComponent ''%'' = Inl (ErrorObj ''URIError'' ''URI malformed'')
   \<and> decodeURIComponent ''100%zz'' = Inl (ErrorObj ''URIError'' ''URI malformed'')
   \<and> decodeURIComponent ''%C0%80'' = Inl (ErrorObj ''URIError'' ''URI malformed'')
   \<and> snd (readResource env cfg ''hyperliquid://market/l2-book/BTC%2DUSD'')
       = [[''market-data'', ''--secret-key'', secretKey cfg, ''--network'', network cfg]
          @ account_flags (accountAddress cfg)
          @ [''--data-type'', ''l2_snapshot'', ''--coin'', ''BTC-USD'']]
   \<and> readResource env cfg ''hyperliquid://market/l2-book/%''
       = (Inl (ErrorObj ''URIError'' ''URI malformed''), [])"
proof (intro conjI allI impI)
  show "readResource env cfg ''hyperliquid://market/all-mids''
     = resource_reply env cfg ''hyperliquid://market/all-mids'' ''market-data''
         [(''dataType'', JStr ''all_mids'')]"
    by (simp add: readResource_def)
next
  fix seg assume "anchored_match ''hyperliquid://market/l2-book/'' [] u seg"
  then show "l2BookMatch u = Some seg"
    by (simp only: l2BookMatch_def capture_iff)
next
  fix seg assume "anchored_match ''hyperliquid://market/l2-book/'' [] u seg"
  then show "readResource env cfg u =
            (case decodeURIComponent seg of
               Inl e \<Rightarrow> (Inl e, [])
             | Inr coin \<Rightarrow> resource_reply env cfg u ''market-data''
                            [(''dataType'', JStr ''l2_snapshot''), (''coin'', JStr coin)])"
    by (rule read_l2)
next
  fix seg assume "anchored_match ''hyperliquid://user/'' ''/state'' u seg"
  then show "userStateMatch u = Some seg"
    by (simp only: userStateMatch_def capture_iff)
next
  fix seg assume "anchored_match ''hyperliquid://user/'' ''/state'' u seg"
  then show "readResource env cfg u =
            (case decodeURIComponent seg of
               Inl e \<Rightarrow> (Inl e, [])
             | Inr address \<Rightarrow> resource_reply env cfg u ''user-data''
                               [(''dataType'', JStr ''user_state'')])"
    by (rule read_state)
next
  fix seg assume "anchored_match ''hyperliquid://user/'' ''/open-orders'' u seg"
  then show "openOrdersMatch u = Some seg"
    by (simp only: openOrdersMatch_def capture_iff)
next
  fix seg assume "anchored_match ''hyperliquid://user/'' ''/open-orders'' u seg"
  then show "readResource env cfg u =
            (case decodeURIComponent seg of
               Inl e \<Rightarrow> (Inl e, [])
             | Inr address \<Rightarrow> resource_reply env cfg u ''user-data''
                               [(''dataType'', JStr ''open_orders'')])"
    by (rule read_orders)
next
  assume "u \<noteq> ''hyperliquid://market/all-mids''
        \<and> (\<forall>seg. \<not> anchored_match ''hyperliquid://market/l2-book/'' [] u seg)
        \<and> (\<forall>seg. \<not> anchored_match ''hyperliquid://user/'' ''/state'' u seg)
        \<and> (\<forall>seg. \<not> anchored_match ''hyperliquid://user/'' ''/open-orders'' u seg)"
  then show "readResource env cfg u = (Inl (McpError InvalidRequest (''Invalid URI format: '' @ u)), [])"
    by (intro read_unmatched) blast+
next
  show "l2BookMatch ''hyperliquid://market/l2-book/BTC'' = Some ''BTC''"
    using example_matches(1) by (simp only: l2BookMatch_def capture_iff)
next
  show "decodeURIComponent ''BTC'' = Inr ''BTC''" by (rule example_decodes)
next
  show "userStateMatch ''hyperliquid://user/0xABC/state'' = Some ''0xABC''"
    using example_matches(2) by (simp only: userStateMatch_def capture_iff)
next
  show "decodeURIComponent ''0xABC'' = Inr ''0xABC''" by (rule example_decodes)
next
  show "readResource env cfg ''hyperliquid://bogus''
       = (Inl (McpError InvalidRequest ''Invalid URI format: hyperliquid://bogus''), [])"
    using read_unmatched [OF bogus_unmatched, of env cfg] by simp
next
  assume "(\<forall>c \<in> set s. (of_char c :: nat) < 128) \<and> (\<forall>c \<in> set s. c = CHR ''%'' \<longrightarrow> esc c)"
  then show "decodeURIComponent (percent_encode esc s) = Inr s"
    by (intro decode_percent_encode) blast+
next
  show "decodeURIComponent ''BTC%2DUSD'' = Inr ''BTC-USD''" by (rule escape_decodes)
next
  show "decodeURIComponent ''%E2%82%AC'' = Inr [CHR 0xE2, CHR 0x82, CHR 0xAC]"
    by (rule escape_decodes)
next
  show "decodeURIComponent ''%'' = Inl (ErrorObj ''URIError'' ''URI malformed'')"
    by (rule example_decodes)
next
  show "decodeURIComponent ''100%zz'' = Inl (ErrorObj ''URIError'' ''URI malformed'')"
    by (rule escape_decodes)
next
  show "decodeURIComponent ''%C0%80'' = Inl (ErrorObj ''URIError'' ''URI malformed'')"
    by (rule escape_decodes)
next
  have "anchored_match ''hyperliquid://market/l2-book/'' []
      ''hyperliquid://market/l2-book/BTC%2DUSD'' ''BTC%2DUSD''"
    by (simp add: anchored_match_def)
  from read_l2 [OF this, of env cfg]
  show "snd (readResource env cfg ''hyperliquid://market/l2-book/BTC%2DUSD'')
       = [[''market-data'', ''--secret-key'', secretKey cfg, ''--network'', network cfg]
          @ account_flags (accountAddress cfg)
          @ [''--data-type'', ''l2_snapshot'', ''--coin'', ''BTC-USD'']]"
    by (simp add: escape_decodes resource_reply_spawned resource_args)
next
  have "anchored_match ''hyperliquid://market/l2-book/'' []
      ''hyperliquid://market/l2-book/%'' ''%''"
    by (simp add: anchored_match_def)
  from read_l2 [OF this, of env cfg]
  show "readResource env cfg ''hyperliquid://market/l2-book/%''
       = (Inl (ErrorObj ''URIError'' ''URI malformed''), [])"
    by (simp add: example_decodes)
qed


text \<open>
  C6, at the example URIs, with the sample configuration and bridge, and at the
  encoding of \<open>BTC-USD\<close> with its hyphen escaped.
\<close>

theorem resource_matching_witness:
  "anchored_match ''hyperliquid://market/l2-book/'' [] ''hyperliquid://market/l2-book/BTC'' ''BTC''
   \<and> readResource sample_env sample_config ''hyperliquid://market/l2-book/BTC''
       = resource_reply sample_env sample_config ''hyperliquid://market/l2-book/BTC'' ''market-data''
           [(''dataType'', JStr ''l2_snapshot''), (''coin'', JStr ''BTC'')]
   \<and> anchored_match ''hyperliquid://user/'' ''/state'' ''hyperliquid://user/0xABC/state'' ''0xABC''
   \<and> readResource sample_env sample_config ''hyperliquid://user/0xABC/state''
       = resource_reply sample_env sample_config ''hyperliquid://user/0xABC/state'' ''user-data''
           [(''dataType'', JStr ''user_state'')]
   \<and> anchored_match ''hyperliquid://user/'' ''/open-orders'' ''hyperliquid://user/0xABC/open-orders'' ''0xABC''
   \<and> readResource sample_env sample_config ''hyperliquid://user/0xABC/open-orders''
       = resource_reply sample_env sample_config ''hyperliquid://user/0xABC/open-orders'' ''user-data''
           [(''dataType'', JStr ''open_orders'')]
   \<and> readResource sample_env sample_config ''hyperliquid://bogus''
       = (Inl (McpError InvalidRequest ''Invalid URI format: hyperliquid://bogus''), [])
   \<and> percent_encode (\<lambda>c. c = CHR ''-'' \<or> c = CHR ''%'') ''BTC-USD'' = ''BTC%2DUSD''
   \<and> decodeURIComponent (percent_encode (\<lambda>c. c = CHR ''-'' \<or> c = CHR ''%'') ''BTC-USD'')
       = Inr ''BTC-USD''"
proof -
  have a: "readResource sample_env sample_config ''hyperliquid://market/l2-book/BTC''
       = resource_reply sample_env sample_config ''hyperliquid://market/l2-book/BTC'' ''market-data''
           [(''dataType'', JStr ''l2_snapshot''), (''coin'', JStr ''BTC'')]"
    using resource_matching [of sample_env sample_config "''hyperliquid://market/l2-book/BTC''",
        THEN conjunct2, THEN conjunct1, rule_format, OF example_matches(1), THEN conjunct2]
    by (simp only: example_decodes sum.case)
  have b: "readResource sample_env sample_config ''hyperliquid://user/0xABC/state''
       = resource_reply sample_env sample_config ''hyperliquid://user/0xABC/state'' ''user-data''
           [(''dataType'', JStr ''user_state'')]"
    using resource_matching [of sample_env sample_config "''hyperliquid://user/0xABC/state''",
        THEN conjunct2, THEN conjunct2, THEN conjunct1, rule_format, OF example_matches(2),
        THEN conjunct2]
    by (simp only: example_decodes sum.case)
  have c: "readResource sample_env sample_config ''hyperliquid://user/0xABC/open-orders''
       = resource_reply sample_env sample_config ''hyperliquid://user/0xABC/open-orders'' ''user-data''
           [(''dataType'', JStr ''open_orders'')]"
    using resource_matching [of sample_env sample_config "''hyperliquid://user/0xABC/open-orders''",
        THEN conjunct2, THEN conjunct2, THEN conjunct2, THEN conjunct1, rule_format,
        OF example_matches(3), THEN conjunct2]
    by (simp only: example_decodes sum.case)
  have d: "readResource sample_env sample_config ''hyperliquid://bogus''
       = (Inl (McpError InvalidRequest ''Invalid URI format: hyperliquid://bogus''), [])"
    using resource_matching [of sample_env sample_config "''hyperliquid://bogus''",
        THEN conjunct2, THEN conjunct2, THEN conjunct2, THEN conjunct2, THEN conjunct1]
      bogus_unmatched
    by simp
  have p: "percent_encode (\<lambda>c. c = CHR ''-'' \<or> c = CHR ''%'') ''BTC-USD'' = ''BTC%2DUSD''"
    by code_simp
  have h: "(\<forall>c \<in> set ''BTC-USD''. (of_char c :: nat) < 128)
      \<and> (\<forall>c \<in> set ''BTC-USD''. c = CHR ''%'' \<longrightarrow> (c = CHR ''-'' \<or> c = CHR ''%''))"
    by simp
  have e: "decodeURIComponent (percent_encode (\<lambda>c. c = CHR ''-'' \<or> c = CHR ''%'') ''BTC-USD'')
       = Inr ''BTC-USD''"
    using resource_matching [where s = "''BTC-USD''" and esc = "\<lambda>c. c = CHR ''-'' \<or> c = CHR ''%''",
        THEN conjunct2, THEN conjunct2, THEN conjunct2, THEN conjunct2, THEN conjunct2,
        THEN conjunct2, THEN conjunct2, THEN conjunct2, THEN conjunct2, THEN conjunct2,
        THEN conjunct1, THEN mp, OF h] .
  from a b c d p e example_matches(1,2,3) show ?thesis by (simp only: simp_thms)
qed

section \<open>The address of a user resource\<close>

text \<open>
  C9, as stated, fails: two URIs of the user-state template that differ only in the
  address segment, one of them with the segment \<open>%\<close>, which is not a well-formed
  escape. The first spawns the bridge; the second raises \<open>URIError\<close> in
  \<open>decodeURIComponent\<close> and spawns nothing.
\<close>

theorem malformed_address_no_invocation:
  "anchored_match ''hyperliquid://user/'' ''/state'' ''hyperliquid://user/0xABC/state'' ''0xABC''
   \<and> anchored_match ''hyperliquid://user/'' ''/state'' ''hyperliquid://user/%/state'' ''%''
   \<and> snd (readResource sample_env sample_config ''hyperliquid://user/0xABC/state'')
       = [[''user-data'', ''--secret-key'', ''0xkey'', ''--network'', ''mainnet'',
           ''--account-address'', ''0xA11CE'', ''--data-type'', ''user_state'']]
   \<and> readResource sample_env sample_config ''hyperliquid://user/%/state''
       = (Inl (ErrorObj ''URIError'' ''URI malformed''), [])"
proof -
  have a: "snd (readResource sample_env sample_config ''hyperliquid://user/0xABC/state'')
       = [[''user-data'', ''--secret-key'', ''0xkey'', ''--network'', ''mainnet'',
           ''--account-address'', ''0xA11CE'', ''--data-type'', ''user_state'']]"
    by (simp add: read_state [OF example_matches(2)] example_decodes resource_reply_spawned
        resource_args sample_config_def account_flags_def)
  have b: "readResource sample_env sample_config ''hyperliquid://user/%/state''
       = (Inl (ErrorObj ''URIError'' ''URI malformed''), [])"
    by (simp add: read_state [OF example_matches(4)] example_decodes)
  from a b example_matches(2,4) show ?thesis by (simp only: simp_thms)
qed

lemma resource_reply_body:
  "map_sum id (map entry_body) (fst (resource_reply env cfg u c fs)) =
     (case fst (runBridgeScript env cfg c fs) of
        Inl e \<Rightarrow> Inl e
      | Inr data \<Rightarrow> Inr [(''application/json'', JSON_stringify ''  '' [] data)])"
  by (simp add: resource_reply_def entry_body_def split: prod.splits sum.splits
      del: JSON_stringify.simps)

text \<open>
  C9, amended. For two URIs of the same user template (state or open orders) that
  differ only in the address segment, both segments being well-formed percent-encodings,
  the read-resource handler spawns the same invocation: the command \<open>user-data\<close> with the
  configuration flags and the data-type flag only. The address is in none of them, and
  what the handler returns differs for the two URIs only in the URI it echoes.
\<close>

theorem user_resource_ignores_address:
  assumes "suf = ''/state'' \<or> suf = ''/open-orders''"
    and "seg1 \<noteq> []" "CHR ''/'' \<notin> set seg1" "decodeURIComponent seg1 = Inr a1"
    and "seg2 \<noteq> []" "CHR ''/'' \<notin> set seg2" "decodeURIComponent seg2 = Inr a2"
  shows "snd (readResource env cfg (''hyperliquid://user/'' @ seg1 @ suf))
           = snd (readResource env cfg (''hyperliquid://user/'' @ seg2 @ suf))
         \<and> snd (readResource env cfg (''hyperliquid://user/'' @ seg1 @ suf))
           = [[''user-data'', ''--secret-key'', secretKey cfg, ''--network'', network cfg]
               @ account_flags (accountAddress cfg)
               @ [''--data-type'', if suf = ''/state'' then ''user_state'' else ''open_orders'']]
         \<and> map_sum id (map entry_body) (fst (readResource env cfg (''hyperliquid://user/'' @ seg1 @ suf)))
           = map_sum id (map entry_body) (fst (readResource env cfg (''hyperliquid://user/'' @ seg2 @ suf)))"
proof -
  let ?dt = "if suf = ''/state'' then ''user_state'' else ''open_orders''"
  have one: "readResource env cfg (''hyperliquid://user/'' @ seg @ suf)
           = resource_reply env cfg (''hyperliquid://user/'' @ seg @ suf) ''user-data''
               [(''dataType'', JStr ?dt)]"
    if seg: "seg \<noteq> []" "CHR ''/'' \<notin> set seg" "decodeURIComponent seg = Inr a" for seg a
    using assms(1)
  proof
    assume s: "suf = ''/state''"
    from seg have "anchored_match ''hyperliquid://user/'' ''/state''
        (''hyperliquid://user/'' @ seg @ ''/state'') seg"
      by (simp add: anchored_match_def)
    from read_state [OF this, of env cfg] seg(3) s show ?thesis by simp
  next
    assume s: "suf = ''/open-orders''"
    from seg have "anchored_match ''hyperliquid://user/'' ''/open-orders''
        (''hyperliquid://user/'' @ seg @ ''/open-orders'') seg"
      by (simp add: anchored_match_def)
    from read_orders [OF this, of env cfg] seg(3) s show ?thesis by simp
  qed
  have args: "bridge_args cfg ''user-data'' [(''dataType'', JStr ?dt)]
      = Inr ([''user-data'', ''--secret-key'', secretKey cfg, ''--network'', network cfg]
               @ account_flags (accountAddress cfg) @ [''--data-type'', ?dt])"
    by (rule resource_args)
  note r1 = one [OF assms(2,3,4)] and r2 = one [OF assms(5,6,7)]
  show ?thesis
    unfolding r1 r2 resource_reply_spawned resource_reply_body args by simp
qed


text \<open>C9, amended, at the addresses \<open>0xABC\<close> and \<open>0xDEF\<close>.\<close>

theorem user_resource_ignores_address_witness:
  "snd (readResource sample_env sample_config ''hyperliquid://user/0xABC/state'')
     = snd (readResource sample_env sample_config ''hyperliquid://user/0xDEF/state'')
   \<and> snd (readResource sample_env sample_config ''hyperliquid://user/0xABC/state'')
     = [[''user-data'', ''--secret-key'', ''0xkey'', ''--network'', ''mainnet'',
         ''--account-address'', ''0xA11CE'', ''--data-type'', ''user_state'']]"
proof -
  have h: "''/state'' = ''/state'' \<or> ''/state'' = ''/open-orders''" by simp
  have n1: "''0xABC'' \<noteq> []" and s1: "CHR ''/'' \<notin> set ''0xABC''" by simp_all
  have n2: "''0xDEF'' \<noteq> []" and s2: "CHR ''/'' \<notin> set ''0xDEF''" by simp_all
  note w = user_resource_ignores_address [OF h n1 s1 example_decodes(2) n2 s2 example_decodes(3),
      of sample_env sample_config]
  have e: "[''user-data'', ''--secret-key'', secretKey sample_config, ''--network'', network sample_config]
        @ account_flags (accountAddress sample_config)
        @ [''--data-type'', if ''/state'' = ''/state'' then ''user_state'' else ''open_orders'']
      = [''user-data'', ''--secret-key'', ''0xkey'', ''--network'', ''mainnet'',
         ''--account-address'', ''0xA11CE'', ''--data-type'', ''user_state'']"
    by (simp add: sample_config_def account_flags_def)
  from w [THEN conjunct1] have a: "snd (readResource sample_env sample_config ''hyperliquid://user/0xABC/state'')
     = snd (readResource sample_env sample_config ''hyperliquid://user/0xDEF/state'')"
    by simp
  from w [THEN conjunct2, THEN conjunct1]
  have b: "snd (readResource sample_env sample_config ''hyperliquid://user/0xABC/state'')
     = [[''user-data'', ''--secret-key'', ''0xkey'', ''--network'', ''mainnet'',
         ''--account-address'', ''0xA11CE'', ''--data-type'', ''user_state'']]"
    unfolding e by simp
  from a b show ?thesis by (rule conjI)
qed


section \<open>The catalogs\<close>

lemma tool_required:
  "map (\<lambda>t. (name t, required (inputSchema t))) listTools =
     [(''get_market_data'', [''dataType'']),
      (''get_user_data'', [''dataType'']),
      (''place_limit_order'', [''coin'', ''isBuy'', ''size'', ''price'', ''timeInForce'']),
      (''place_market_order'', [''coin'', ''isBuy'', ''size'']),
      (''cancel_order'', [''coin'']),
      (''update_leverage'', [''coin'', ''leverage''])]"
  by (simp add: listTools_def)

text \<open>
  C10. The list-tools handler returns the six tool descriptors, in the order
  \<open>get_market_data\<close>, \<open>get_user_data\<close>, \<open>place_limit_order\<close>, \<open>place_market_order\<close>,
  \<open>cancel_order\<close>, \<open>update_leverage\<close>, with the required fields listed for each; the
  names are distinct. The list-tools and list-resources handlers depend neither on the
  configuration nor on the bridge and spawn nothing, so any two calls return the same
  sequence.
\<close>

theorem catalogs_fixed:
  "handle env cfg ListToolsRequest = (Inr (Tools listTools), [])
   \<and> handle env cfg ListResourcesRequest = (Inr (Resources listResources), [])
   \<and> handle env cfg ListToolsRequest = handle env' cfg' ListToolsRequest
   \<and> handle env cfg ListResourcesRequest = handle env' cfg' ListResourcesRequest
   \<and> length listTools = 6
   \<and> distinct (map name listTools)
   \<and> map (\<lambda>t. (name t, required (inputSchema t))) listTools =
       [(''get_market_data'', [''dataType'']),
        (''get_user_data'', [''dataType'']),
        (''place_limit_order'', [''coin'', ''isBuy'', ''size'', ''price'', ''timeInForce'']),
        (''place_market_order'', [''coin'', ''isBuy'', ''size'']),
        (''cancel_order'', [''coin'']),
        (''update_leverage'', [''coin'', ''leverage''])]
   \<and> map uri listResources = [''hyperliquid://market/all-mids'']"
proof (intro conjI)
  show "length listTools = 6"
    using arg_cong [OF tool_names, of length] by simp
  show "distinct (map name listTools)"
    by (simp add: tool_names)
  show "map (\<lambda>t. (name t, required (inputSchema t))) listTools =
       [(''get_market_data'', [''dataType'']),
        (''get_user_data'', [''dataType'']),
        (''place_limit_order'', [''coin'', ''isBuy'', ''size'', ''price'', ''timeInForce'']),
        (''place_market_order'', [''coin'', ''isBuy'', ''size'']),
        (''cancel_order'', [''coin'']),
        (''update_leverage'', [''coin'', ''leverage''])]"
    by (rule tool_required)
  show "map uri listResources = [''hyperliquid://market/all-mids'']"
    by (simp add: listResources_def)
qed (simp_all add: handle_def)

end
